theory Spec2Isabelle
  imports Complex_Main
begin

section \<open>JavaScript values held by the tracker\<close>

text \<open>
  A snapshot field of \<^verbatim>\<open>PerformanceTracker.js\<close> holds \<^verbatim>\<open>null\<close>, a number (only the
  initial \<^verbatim>\<open>cumulativeLayoutShift: 0\<close>) or the string that \<^verbatim>\<open>toFixed\<close> returned.
  Numbers are modelled as exact reals: the rounding of IEEE doubles, \<^verbatim>\<open>NaN\<close> and the
  infinities are outside the model, and \<^verbatim>\<open>NaN\<close> as the result of a conversion is the
  value \<open>None\<close> of \<open>real option\<close>.
\<close>

datatype jsval = Null | Num real | Str string

subsection \<open>Number.prototype.toFixed\<close>

definition digit_char :: "nat \<Rightarrow> char" where
  "digit_char d = ''0123456789'' ! d"

fun digits :: "nat \<Rightarrow> string" where
  "digits n = (if n < 10 then [digit_char n] else digits (n div 10) @ [digit_char (n mod 10)])"

declare digits.simps [simp del]

text \<open>
  The steps of the language standard for a finite \<open>x\<close> below \<open>10^21\<close>: \<open>n\<close> is the integer
  nearest to \<open>x * 10^f\<close> (the larger one on a tie), its digits are padded with zeros to
  \<open>f + 1\<close> characters and the point is put before the last \<open>f\<close> of them; a negative \<open>x\<close>
  is formatted as \<open>-x\<close> behind a minus sign.
\<close>

definition toFixed_abs :: "nat \<Rightarrow> real \<Rightarrow> string" where
  "toFixed_abs f x =
     (let n = nat \<lfloor>x * 10 ^ f + 1 / 2\<rfloor>;
          m = digits n
      in if f = 0 then m
         else let m' = (if length m \<le> f then replicate (f + 1 - length m) (CHR ''0'') @ m else m);
                  k = length m'
              in take (k - f) m' @ ''.'' @ drop (k - f) m')"

definition toFixed :: "nat \<Rightarrow> real \<Rightarrow> string" where
  "toFixed f x = (if x < 0 then ''-'' @ toFixed_abs f (- x) else toFixed_abs f x)"

subsection \<open>ToNumber\<close>

text \<open>
  The conversion applied by \<^verbatim>\<open>>\<close> and \<^verbatim>\<open>-\<close> when an operand is not a number.
  \<^verbatim>\<open>null\<close> converts to \<open>0\<close>. Of the string grammar the plain decimal literals are
  modelled (optional sign, digits, optional point and digits) and the empty string,
  which converts to \<open>0\<close>; every other string (exponents, \<^verbatim>\<open>Infinity\<close>, hexadecimal,
  surrounding white space) is \<^verbatim>\<open>NaN\<close> here. Every string the tracker stores comes from
  \<open>toFixed\<close> and is a plain decimal literal.
\<close>

definition digit_val :: "char \<Rightarrow> nat option" where
  "digit_val c =
     map_of [(CHR ''0'', 0), (CHR ''1'', 1), (CHR ''2'', 2), (CHR ''3'', 3), (CHR ''4'', 4),
             (CHR ''5'', 5), (CHR ''6'', 6), (CHR ''7'', 7), (CHR ''8'', 8), (CHR ''9'', 9)] c"

fun digits_val :: "string \<Rightarrow> nat \<Rightarrow> nat option" where
  "digits_val [] acc = Some acc"
| "digits_val (c # cs) acc =
     (case digit_val c of None \<Rightarrow> None | Some d \<Rightarrow> digits_val cs (10 * acc + d))"

definition StrUnsignedDecimalLiteral :: "string \<Rightarrow> real option" where
  "StrUnsignedDecimalLiteral s =
     (let a = takeWhile (\<lambda>c. c \<noteq> CHR ''.'') s;
          r = dropWhile (\<lambda>c. c \<noteq> CHR ''.'') s
      in case r of
           [] \<Rightarrow> (if a = [] then None else map_option real (digits_val a 0))
         | _ # b \<Rightarrow>
             (if a = [] \<and> b = [] then None
              else case (digits_val a 0, digits_val b 0) of
                     (Some i, Some j) \<Rightarrow> Some (real i + real j / 10 ^ length b)
                   | _ \<Rightarrow> None))"

definition StringToNumber :: "string \<Rightarrow> real option" where
  "StringToNumber s =
     (case s of
        [] \<Rightarrow> Some 0
      | c # r \<Rightarrow>
          if c = CHR ''-'' then map_option uminus (StrUnsignedDecimalLiteral r)
          else if c = CHR ''+'' then StrUnsignedDecimalLiteral r
          else StrUnsignedDecimalLiteral s)"

definition toNumber :: "jsval \<Rightarrow> real option" where
  "toNumber v = (case v of Null \<Rightarrow> Some 0 | Num x \<Rightarrow> Some x | Str s \<Rightarrow> StringToNumber s)"

text \<open>
  \<^verbatim>\<open>a > b\<close> where \<open>b\<close> is a threshold: a number, or \<^verbatim>\<open>undefined\<close> (\<open>None\<close>) when the
  key is absent from the object that was destructured. The right operand is never a
  string, so the comparison is numeric, and it is false when either side is \<^verbatim>\<open>NaN\<close>.
\<close>

definition js_gt :: "jsval \<Rightarrow> real option \<Rightarrow> bool" where
  "js_gt a b =
     (case (toNumber a, b) of (Some x, Some y) \<Rightarrow> x > y | _ \<Rightarrow> False)"

definition num_gt :: "real \<Rightarrow> real option \<Rightarrow> bool" where
  "num_gt x b = (case b of Some y \<Rightarrow> x > y | None \<Rightarrow> False)"

text \<open>\<^verbatim>\<open>a - d\<close> for a number \<open>d\<close>.\<close>

definition js_minus :: "jsval \<Rightarrow> real \<Rightarrow> real option" where
  "js_minus a d = map_option (\<lambda>x. x - d) (toNumber a)"

text \<open>\<^verbatim>\<open>Math.round\<close>: the nearest integer, the larger one on a tie.\<close>

definition Math_round :: "real \<Rightarrow> int" where
  "Math_round x = \<lfloor>x + 1 / 2\<rfloor>"

section \<open>Thresholds and the metrics snapshot\<close>

record 'a threshold_config =
  fcp :: 'a
  lcp :: 'a
  tti :: 'a
  cls :: 'a
  fid :: 'a
  inp :: 'a
  ttfb :: 'a
  componentRenderTime :: 'a

definition defaultThresholds :: "real threshold_config" where
  "defaultThresholds =
     \<lparr>fcp = 2000, lcp = 2500, tti = 3000, cls = 1 / 10, fid = 100, inp = 200, ttfb = 800,
      componentRenderTime = 500\<rparr>"

definition MAX_SCORE :: real where
  "MAX_SCORE = 100"

text \<open>
  A thresholds object supplied by a caller: a key that is absent reads as
  \<^verbatim>\<open>undefined\<close>, the value \<open>None\<close>.
\<close>

type_synonym thresholds = "real option threshold_config"

definition no_thresholds :: thresholds where
  "no_thresholds =
     \<lparr>fcp = None, lcp = None, tti = None, cls = None, fid = None, inp = None, ttfb = None,
      componentRenderTime = None\<rparr>"

definition all_keys :: "real threshold_config \<Rightarrow> thresholds" where
  "all_keys d =
     \<lparr>fcp = Some (fcp d), lcp = Some (lcp d), tti = Some (tti d), cls = Some (cls d),
      fid = Some (fid d), inp = Some (inp d), ttfb = Some (ttfb d),
      componentRenderTime = Some (componentRenderTime d)\<rparr>"

text \<open>The object spread \<^verbatim>\<open>{ ...defaultThresholds, ...thresholds }\<close>.\<close>

definition spread_key :: "real \<Rightarrow> real option \<Rightarrow> real option" where
  "spread_key d t = (case t of None \<Rightarrow> Some d | Some x \<Rightarrow> Some x)"

definition spread :: "real threshold_config \<Rightarrow> thresholds \<Rightarrow> thresholds" where
  "spread d t =
     \<lparr>fcp = spread_key (fcp d) (fcp t), lcp = spread_key (lcp d) (lcp t),
      tti = spread_key (tti d) (tti t), cls = spread_key (cls d) (cls t),
      fid = spread_key (fid d) (fid t), inp = spread_key (inp d) (inp t),
      ttfb = spread_key (ttfb d) (ttfb t),
      componentRenderTime = spread_key (componentRenderTime d) (componentRenderTime t)\<rparr>"

record 'a render_record =
  name :: string
  renderTime :: 'a

record metrics =
  firstContentfulPaint :: jsval
  timeToInteractive :: jsval
  largestContentfulPaint :: jsval
  cumulativeLayoutShift :: jsval
  firstInputDelay :: jsval
  interactionToNextPaint :: jsval
  timeToFirstByte :: jsval
  componentRenderTimes :: "real render_record list"

datatype tier = Excellent | Good_job | Needs_Improvement

datatype message = Message tier int

text \<open>
  What the module writes to the console, as structured values: the label, the observed
  value and the threshold of an alert are the three values its template interpolates.
\<close>

datatype console_entry =
    Warn_exceeded string jsval "real option"
  | Warn_component string real "real option"
  | Warn_no_first_input
  | Warn_no_interaction
  | Log_metrics metrics
  | Log_feedback "message option"

text \<open>The module's mutable state: the \<^verbatim>\<open>performanceMetrics\<close> variable and the console.\<close>

record globals =
  performanceMetrics :: metrics
  console :: "console_entry list"

definition initial_metrics :: metrics where
  "initial_metrics =
     \<lparr>firstContentfulPaint = Null, timeToInteractive = Null, largestContentfulPaint = Null,
      cumulativeLayoutShift = Num 0, firstInputDelay = Null, interactionToNextPaint = Null,
      timeToFirstByte = Null, componentRenderTimes = []\<rparr>"

definition initial_globals :: globals where
  "initial_globals = \<lparr>performanceMetrics = initial_metrics, console = []\<rparr>"

definition warn :: "console_entry \<Rightarrow> globals \<Rightarrow> globals" where
  "warn m g = g\<lparr>console := console g @ [m]\<rparr>"

section \<open>Component render times\<close>

text \<open>
  \<^verbatim>\<open>trackComponentRender(name, renderTime)\<close> pushes the record with the argument as
  it came and returns a fresh object with the formatted time. The time is a number, as
  the interface has it; the call returns its result directly, not through a promise.
\<close>

definition trackComponentRender ::
  "string \<Rightarrow> real \<Rightarrow> globals \<Rightarrow> string render_record \<times> globals" where
  "trackComponentRender n t g =
     (let pm = performanceMetrics g;
          g' = g\<lparr>performanceMetrics :=
                   pm\<lparr>componentRenderTimes :=
                        componentRenderTimes pm @ [\<lparr>name = n, renderTime = t\<rparr>]\<rparr>\<rparr>
      in (\<lparr>name = n, renderTime = toFixed 2 t\<rparr>, g'))"

section \<open>Performance alerts\<close>

text \<open>
  The argument of \<^verbatim>\<open>checkPerformanceAlerts(thresholds = {})\<close>: left out (the default
  \<^verbatim>\<open>{}\<close> applies), \<^verbatim>\<open>null\<close> (falsy, so \<^verbatim>\<open>|| defaultThresholds\<close> applies) or an
  object (truthy, destructured as it is).
\<close>

datatype 'a arg = Omitted | Null_arg | Given 'a

definition destructured :: "thresholds arg \<Rightarrow> thresholds" where
  "destructured a =
     (case a of
        Omitted \<Rightarrow> no_thresholds
      | Null_arg \<Rightarrow> all_keys defaultThresholds
      | Given t \<Rightarrow> t)"

definition check_metric :: "string \<Rightarrow> jsval \<Rightarrow> real option \<Rightarrow> globals \<Rightarrow> globals" where
  "check_metric label v t g =
     (if v \<noteq> Null \<and> js_gt v t then warn (Warn_exceeded label v t) g else g)"

definition check_component :: "real option \<Rightarrow> real render_record \<Rightarrow> globals \<Rightarrow> globals" where
  "check_component t r g =
     (if num_gt (renderTime r) t then warn (Warn_component (name r) (renderTime r) t) g else g)"

definition checkPerformanceAlerts :: "thresholds arg \<Rightarrow> globals \<Rightarrow> globals" where
  "checkPerformanceAlerts a g0 =
     (let T = destructured a;
          pm = performanceMetrics g0;
          g1 = check_metric ''FCP'' (firstContentfulPaint pm) (fcp T) g0;
          g2 = check_metric ''LCP'' (largestContentfulPaint pm) (lcp T) g1;
          g3 = check_metric ''TTI'' (timeToInteractive pm) (tti T) g2;
          g4 = check_metric ''CLS'' (cumulativeLayoutShift pm) (cls T) g3;
          g5 = check_metric ''FID'' (firstInputDelay pm) (fid T) g4;
          g6 = check_metric ''INP'' (interactionToNextPaint pm) (inp T) g5;
          g7 = check_metric ''TTFB'' (timeToFirstByte pm) (ttfb T) g6
      in fold (check_component (componentRenderTime T)) (componentRenderTimes pm) g7)"

section \<open>Score and feedback\<close>

definition metricDifferences :: "metrics \<Rightarrow> real option list" where
  "metricDifferences pm =
     [map_option (\<lambda>x. x / 100) (js_minus (firstContentfulPaint pm) (fcp defaultThresholds)),
      map_option (\<lambda>x. x / 100) (js_minus (largestContentfulPaint pm) (lcp defaultThresholds)),
      map_option (\<lambda>x. x / 100) (js_minus (timeToInteractive pm) (tti defaultThresholds)),
      map_option (\<lambda>x. x * 100) (js_minus (cumulativeLayoutShift pm) (cls defaultThresholds)),
      map_option (\<lambda>x. x / 100) (js_minus (firstInputDelay pm) (fid defaultThresholds)),
      map_option (\<lambda>x. x / 100) (js_minus (interactionToNextPaint pm) (inp defaultThresholds)),
      map_option (\<lambda>x. x / 100) (js_minus (timeToFirstByte pm) (ttfb defaultThresholds))]"

text \<open>\<^verbatim>\<open>if (diff > 0) score -= diff\<close>; the test is false for \<^verbatim>\<open>NaN\<close>.\<close>

definition subtract_if_positive :: "real option \<Rightarrow> real \<Rightarrow> real" where
  "subtract_if_positive diff score =
     (case diff of Some d \<Rightarrow> if d > 0 then score - d else score | None \<Rightarrow> score)"

definition render_diff :: "real render_record \<Rightarrow> real option" where
  "render_diff r = Some ((renderTime r - componentRenderTime defaultThresholds) / 100)"

text \<open>The value of \<^verbatim>\<open>score\<close> after the two \<^verbatim>\<open>forEach\<close> loops.\<close>

definition running_score :: "metrics \<Rightarrow> real" where
  "running_score pm =
     fold (\<lambda>r. subtract_if_positive (render_diff r)) (componentRenderTimes pm)
       (fold subtract_if_positive (metricDifferences pm) MAX_SCORE)"

definition calculatePerformanceScore :: "metrics \<Rightarrow> int" where
  "calculatePerformanceScore pm = max 0 (Math_round (running_score pm))"

record feedback_entry =
  threshold :: int
  message :: message

definition feedbackMap :: "int \<Rightarrow> feedback_entry list" where
  "feedbackMap score =
     [\<lparr>threshold = 90, message = Message Excellent score\<rparr>,
      \<lparr>threshold = 70, message = Message Good_job score\<rparr>,
      \<lparr>threshold = 0, message = Message Needs_Improvement score\<rparr>]"

text \<open>
  \<^verbatim>\<open>feedbackMap.find(...)\<close> gives the first entry that matches or \<^verbatim>\<open>undefined\<close>, and
  \<^verbatim>\<open>feedback?.message\<close> is logged either way.
\<close>

definition provideFeedback :: "int \<Rightarrow> globals \<Rightarrow> globals" where
  "provideFeedback score g =
     (let feedback = find (\<lambda>fb. score \<ge> threshold fb) (feedbackMap score)
      in g\<lparr>console := console g @ [Log_feedback (map_option message feedback)]\<rparr>)"

section \<open>Promises and the host\<close>

datatype exn = ReferenceError string | TypeError string

datatype 'a promise = Pending | Fulfilled 'a | Rejected exn

text \<open>Calling \<^verbatim>\<open>resolve\<close> on a promise that is settled already does nothing.\<close>

definition resolve :: "'a \<Rightarrow> 'a promise \<Rightarrow> 'a promise" where
  "resolve v p = (case p of Pending \<Rightarrow> Fulfilled v | _ \<Rightarrow> p)"

text \<open>
  What a collector reads from the host when it is called: whether \<^verbatim>\<open>window\<close> is
  defined, whether it has a \<^verbatim>\<open>PerformanceObserver\<close>, whether
  \<^verbatim>\<open>document.readyState\<close> is \<^verbatim>\<open>'complete'\<close>, the reading of \<^verbatim>\<open>performance.now()\<close>
  and the two timestamps of \<^verbatim>\<open>performance.timing\<close>.
\<close>

record host =
  window_defined :: bool
  PerformanceObserver_in_window :: bool
  readyState_complete :: bool
  now :: real
  responseStart :: real
  requestStart :: real

text \<open>A performance entry, with the fields the observers read.\<close>

record entry =
  entry_name :: string
  startTime :: real
  processingStart :: real
  hadRecentInput :: bool
  shift_value :: real

text \<open>
  One call of a collector: the promise it returned, whether its observer or listener is
  still attached, and whether its five-second timer is still to fire.
\<close>

record call =
  promise :: "jsval promise"
  observing :: bool
  timer :: bool

record cls_call = call +
  clsValue :: real

record inp_call = call +
  interactionOccurred :: bool

definition unsupported :: call where
  "unsupported = \<lparr>promise = resolve Null Pending, observing = False, timer = False\<rparr>"

section \<open>The signal collectors\<close>

subsection \<open>First contentful paint\<close>

definition trackFirstContentfulPaint :: "host \<Rightarrow> call" where
  "trackFirstContentfulPaint h =
     (if window_defined h \<and> PerformanceObserver_in_window h
      then \<lparr>promise = Pending, observing = True, timer = False\<rparr>
      else unsupported)"

definition firstContentfulPaint_observer :: "entry list \<Rightarrow> call \<Rightarrow> call" where
  "firstContentfulPaint_observer list c =
     (case filter (\<lambda>e. entry_name e = ''first-contentful-paint'') list of
        [] \<Rightarrow> c
      | e # _ \<Rightarrow>
          c\<lparr>promise := resolve (Str (toFixed 2 (startTime e))) (promise c), observing := False\<rparr>)"

subsection \<open>Time to interactive\<close>

definition trackTimeToInteractive :: "host \<Rightarrow> call" where
  "trackTimeToInteractive h =
     (if window_defined h
      then \<lparr>promise = (if readyState_complete h then resolve (Str (toFixed 2 (now h))) Pending
                       else Pending),
            observing = True, timer = False\<rparr>
      else unsupported)"

text \<open>The \<^verbatim>\<open>load\<close> listener, called with the clock's reading at that moment.\<close>

definition timeToInteractive_load :: "real \<Rightarrow> call \<Rightarrow> call" where
  "timeToInteractive_load t c = c\<lparr>promise := resolve (Str (toFixed 2 t)) (promise c)\<rparr>"

subsection \<open>Largest contentful paint\<close>

definition trackLargestContentfulPaint :: "host \<Rightarrow> call" where
  "trackLargestContentfulPaint h =
     (if window_defined h \<and> PerformanceObserver_in_window h
      then \<lparr>promise = Pending, observing = True, timer = False\<rparr>
      else unsupported)"

text \<open>
  \<^verbatim>\<open>entries[entries.length - 1]\<close> of an empty list is \<^verbatim>\<open>undefined\<close>, and reading
  \<^verbatim>\<open>startTime\<close> of it throws inside the callback.
\<close>

definition largestContentfulPaint_observer :: "entry list \<Rightarrow> call \<Rightarrow> exn + call" where
  "largestContentfulPaint_observer entries c =
     (case entries of
        [] \<Rightarrow> Inl (TypeError ''lastEntry is undefined'')
      | _ # _ \<Rightarrow>
          Inr (c\<lparr>promise := resolve (Str (toFixed 2 (startTime (last entries)))) (promise c),
                 observing := False\<rparr>))"

subsection \<open>Cumulative layout shift\<close>

definition trackCumulativeLayoutShift :: "host \<Rightarrow> cls_call" where
  "trackCumulativeLayoutShift h =
     (if window_defined h \<and> PerformanceObserver_in_window h
      then \<lparr>promise = Pending, observing = True, timer = False, clsValue = 0\<rparr>
      else \<lparr>promise = resolve Null Pending, observing = False, timer = False, clsValue = 0\<rparr>)"

definition layoutShift_observer :: "entry list \<Rightarrow> cls_call \<Rightarrow> cls_call" where
  "layoutShift_observer entries c =
     (let v = fold (\<lambda>e acc. if \<not> hadRecentInput e \<and> shift_value e \<noteq> 0
                             then acc + shift_value e else acc)
                entries (clsValue c)
      in c\<lparr>clsValue := v, promise := resolve (Str (toFixed 4 v)) (promise c),
           observing := False\<rparr>)"

subsection \<open>First input delay\<close>

definition trackFirstInputDelay :: "host \<Rightarrow> call" where
  "trackFirstInputDelay h =
     (if window_defined h \<and> PerformanceObserver_in_window h
      then \<lparr>promise = Pending, observing = True, timer = True\<rparr>
      else unsupported)"

definition firstInput_observer :: "entry list \<Rightarrow> call \<Rightarrow> exn + call" where
  "firstInput_observer entries c =
     (case entries of
        [] \<Rightarrow> Inl (TypeError ''firstEntry is undefined'')
      | firstEntry # _ \<Rightarrow>
          Inr (c\<lparr>promise :=
                    resolve (Str (toFixed 2 (processingStart firstEntry - startTime firstEntry)))
                      (promise c),
                 observing := False\<rparr>))"

text \<open>
  The callback of \<^verbatim>\<open>setTimeout(..., 5000)\<close>. Its test reads the module's snapshot,
  not anything local to the call.
\<close>

definition firstInput_timeout :: "globals \<Rightarrow> call \<Rightarrow> globals \<times> call" where
  "firstInput_timeout g c =
     (if firstInputDelay (performanceMetrics g) = Null
      then (warn Warn_no_first_input g, c\<lparr>promise := resolve Null (promise c), timer := False\<rparr>)
      else (g, c\<lparr>timer := False\<rparr>))"

subsection \<open>Interaction to next paint\<close>

text \<open>
  The executor calls \<^verbatim>\<open>window.addEventListener\<close> with no test of \<^verbatim>\<open>window\<close> before
  it. Where \<^verbatim>\<open>window\<close> is not defined that is a \<^verbatim>\<open>ReferenceError\<close>; the promise
  constructor catches it and rejects the promise, and the line that sets the timer is
  not reached.
\<close>

definition trackInteractionToNextPaint :: "host \<Rightarrow> inp_call" where
  "trackInteractionToNextPaint h =
     (if window_defined h
      then \<lparr>promise = Pending, observing = True, timer = True, interactionOccurred = False\<rparr>
      else \<lparr>promise = Rejected (ReferenceError ''window is not defined''), observing = False,
            timer = False, interactionOccurred = False\<rparr>)"

text \<open>
  The click listener, called with the reading of \<^verbatim>\<open>performance.now()\<close> and the
  event's \<^verbatim>\<open>timeStamp\<close>.
\<close>

definition handleInteraction :: "real \<Rightarrow> real \<Rightarrow> inp_call \<Rightarrow> inp_call" where
  "handleInteraction t timeStamp c =
     c\<lparr>promise := resolve (Str (toFixed 2 (t - timeStamp))) (promise c),
       interactionOccurred := True, observing := False\<rparr>"

definition interaction_timeout :: "globals \<Rightarrow> inp_call \<Rightarrow> globals \<times> inp_call" where
  "interaction_timeout g c =
     (if \<not> interactionOccurred c
      then (warn Warn_no_interaction g, c\<lparr>promise := resolve Null (promise c), timer := False\<rparr>)
      else (g, c\<lparr>timer := False\<rparr>))"

subsection \<open>Time to first byte\<close>

definition trackTimeToFirstByte :: "host \<Rightarrow> call" where
  "trackTimeToFirstByte h =
     (if window_defined h
      then \<lparr>promise = resolve (Str (toFixed 2 (responseStart h - requestStart h))) Pending,
            observing = False, timer = False\<rparr>
      else unsupported)"

section \<open>The aggregator and the entry points\<close>

text \<open>
  \<^verbatim>\<open>Promise.all\<close>: fulfilled with all the values once every promise is fulfilled,
  rejected once one is rejected, pending otherwise. Of the seven collectors one only can
  reject, so which rejection comes first is not a question here.
\<close>

fun Promise_all :: "'a promise list \<Rightarrow> 'a list promise" where
  "Promise_all [] = Fulfilled []"
| "Promise_all (p # ps) =
     (case p of
        Rejected e \<Rightarrow> Rejected e
      | Pending \<Rightarrow> (case Promise_all ps of Rejected e \<Rightarrow> Rejected e | _ \<Rightarrow> Pending)
      | Fulfilled v \<Rightarrow>
          (case Promise_all ps of
             Fulfilled vs \<Rightarrow> Fulfilled (v # vs)
           | Pending \<Rightarrow> Pending
           | Rejected e \<Rightarrow> Rejected e))"

record options =
  trackMetrics :: bool
  showAlerts :: bool
  enableGamification :: bool
  thresholds :: thresholds

definition default_options :: options where
  "default_options =
     \<lparr>trackMetrics = True, showAlerts = True, enableGamification = True,
      thresholds = no_thresholds\<rparr>"

text \<open>
  Who awaits a call of \<^verbatim>\<open>getPerformanceMetrics\<close>: a caller of the export,
  \<^verbatim>\<open>runGamification\<close> or \<^verbatim>\<open>runPerformanceTracker\<close>.
\<close>

datatype cont = Caller | Gamification | Tracker options

text \<open>
  A call of \<^verbatim>\<open>getPerformanceMetrics\<close> in flight: its seven collector calls, in the
  order of the array given to \<^verbatim>\<open>Promise.all\<close>.
\<close>

record cycle =
  c_fcp :: call
  c_tti :: call
  c_lcp :: call
  c_cls :: cls_call
  c_fid :: call
  c_inp :: inp_call
  c_ttfb :: call
  awaited_by :: cont
  resumed :: bool

definition getPerformanceMetrics_call :: "host \<Rightarrow> cont \<Rightarrow> cycle" where
  "getPerformanceMetrics_call h k =
     \<lparr>c_fcp = trackFirstContentfulPaint h,
      c_tti = trackTimeToInteractive h,
      c_lcp = trackLargestContentfulPaint h,
      c_cls = trackCumulativeLayoutShift h,
      c_fid = trackFirstInputDelay h,
      c_inp = trackInteractionToNextPaint h,
      c_ttfb = trackTimeToFirstByte h,
      awaited_by = k, resumed = False\<rparr>"

definition promises :: "cycle \<Rightarrow> jsval promise list" where
  "promises c =
     [promise (c_fcp c), promise (c_tti c), promise (c_lcp c), promise (c_cls c),
      promise (c_fid c), promise (c_inp c), promise (c_ttfb c)]"

text \<open>
  The rest of \<^verbatim>\<open>getPerformanceMetrics\<close>, run once the seven values are there: the
  snapshot is replaced by its spread with the seven fields overridden.
\<close>

definition getPerformanceMetrics_resume :: "jsval list \<Rightarrow> globals \<Rightarrow> globals" where
  "getPerformanceMetrics_resume vs g =
     (case vs of
        [v1, v2, v3, v4, v5, v6, v7] \<Rightarrow>
          g\<lparr>performanceMetrics :=
              (performanceMetrics g)
                \<lparr>firstContentfulPaint := v1, timeToInteractive := v2,
                 largestContentfulPaint := v3, cumulativeLayoutShift := v4,
                 firstInputDelay := v5, interactionToNextPaint := v6,
                 timeToFirstByte := v7\<rparr>\<rparr>
      | _ \<Rightarrow> g)"

definition gamify :: "globals \<Rightarrow> globals" where
  "gamify g = provideFeedback (calculatePerformanceScore (performanceMetrics g)) g"

text \<open>Steps 2 and 3 of \<^verbatim>\<open>runPerformanceTracker\<close>.\<close>

definition alerts_and_gamification :: "options \<Rightarrow> globals \<Rightarrow> globals" where
  "alerts_and_gamification opts g =
     (let mergedThresholds = spread defaultThresholds (thresholds opts);
          g1 = (if showAlerts opts then checkPerformanceAlerts (Given mergedThresholds) g else g)
      in if enableGamification opts then gamify g1 else g1)"

fun continue :: "cont \<Rightarrow> globals \<Rightarrow> globals" where
  "continue Caller g = g"
| "continue Gamification g = gamify g"
| "continue (Tracker opts) g =
     alerts_and_gamification opts (g\<lparr>console := console g @ [Log_metrics (performanceMetrics g)]\<rparr>)"

section \<open>A page session\<close>

text \<open>
  What the host can deliver to a call in flight: the entries of an observer callback,
  the \<^verbatim>\<open>load\<close> event, a click, and the firing of either timer. A callback runs only
  while its observer, listener or timer is set; an exception thrown inside an observer
  callback is lost and leaves the call as it was.
\<close>

datatype event =
    Paint "entry list"
  | Load real
  | Largest_paint "entry list"
  | Layout_shift "entry list"
  | First_input "entry list"
  | First_input_timeout
  | Click real real
  | Interaction_timeout

fun deliver :: "event \<Rightarrow> globals \<Rightarrow> cycle \<Rightarrow> globals \<times> cycle" where
  "deliver (Paint es) g c =
     (g, if observing (c_fcp c) then c\<lparr>c_fcp := firstContentfulPaint_observer es (c_fcp c)\<rparr> else c)"
| "deliver (Load t) g c =
     (g, if observing (c_tti c) then c\<lparr>c_tti := timeToInteractive_load t (c_tti c)\<rparr> else c)"
| "deliver (Largest_paint es) g c =
     (g, if observing (c_lcp c)
         then (case largestContentfulPaint_observer es (c_lcp c) of
                 Inl _ \<Rightarrow> c
               | Inr k \<Rightarrow> c\<lparr>c_lcp := k\<rparr>)
         else c)"
| "deliver (Layout_shift es) g c =
     (g, if observing (c_cls c) then c\<lparr>c_cls := layoutShift_observer es (c_cls c)\<rparr> else c)"
| "deliver (First_input es) g c =
     (g, if observing (c_fid c)
         then (case firstInput_observer es (c_fid c) of
                 Inl _ \<Rightarrow> c
               | Inr k \<Rightarrow> c\<lparr>c_fid := k\<rparr>)
         else c)"
| "deliver First_input_timeout g c =
     (if timer (c_fid c)
      then (case firstInput_timeout g (c_fid c) of (g', k) \<Rightarrow> (g', c\<lparr>c_fid := k\<rparr>))
      else (g, c))"
| "deliver (Click t timeStamp) g c =
     (g, if observing (c_inp c) then c\<lparr>c_inp := handleInteraction t timeStamp (c_inp c)\<rparr> else c)"
| "deliver Interaction_timeout g c =
     (if timer (c_inp c)
      then (case interaction_timeout g (c_inp c) of (g', k) \<Rightarrow> (g', c\<lparr>c_inp := k\<rparr>))
      else (g, c))"

record session =
  state :: globals
  cycles :: "cycle list"

definition initial_session :: session where
  "initial_session = \<lparr>state = initial_globals, cycles = []\<rparr>"

text \<open>
  The steps of a session: the calls of the exports, the delivery of an event to the
  call in flight with a given index, and the resumption of such a call after its
  \<^verbatim>\<open>await\<close>. A resumption is a step of its own here, so it may come later than the
  runtime would schedule it; every order the runtime can produce is among the runs.
\<close>

datatype action =
    TrackComponentRender string real
  | GetPerformanceMetrics host
  | RunGamification host
  | RunPerformanceTracker options host
  | CheckPerformanceAlerts "thresholds arg"
  | Deliver nat event
  | Resume nat

fun step :: "action \<Rightarrow> session \<Rightarrow> session" where
  "step (TrackComponentRender n t) s = s\<lparr>state := snd (trackComponentRender n t (state s))\<rparr>"
| "step (GetPerformanceMetrics h) s = s\<lparr>cycles := cycles s @ [getPerformanceMetrics_call h Caller]\<rparr>"
| "step (RunGamification h) s =
     s\<lparr>cycles := cycles s @ [getPerformanceMetrics_call h Gamification]\<rparr>"
| "step (RunPerformanceTracker opts h) s =
     (if trackMetrics opts
      then s\<lparr>cycles := cycles s @ [getPerformanceMetrics_call h (Tracker opts)]\<rparr>
      else s\<lparr>state := alerts_and_gamification opts (state s)\<rparr>)"
| "step (CheckPerformanceAlerts a) s = s\<lparr>state := checkPerformanceAlerts a (state s)\<rparr>"
| "step (Deliver i ev) s =
     (if i < length (cycles s)
      then (case deliver ev (state s) (cycles s ! i) of
              (g, c) \<Rightarrow> s\<lparr>state := g, cycles := (cycles s)[i := c]\<rparr>)
      else s)"
| "step (Resume i) s =
     (if i < length (cycles s) \<and> \<not> resumed (cycles s ! i)
      then (let c = cycles s ! i
            in case Promise_all (promises c) of
                 Pending \<Rightarrow> s
               | Rejected e \<Rightarrow> s\<lparr>cycles := (cycles s)[i := c\<lparr>resumed := True\<rparr>]\<rparr>
               | Fulfilled vs \<Rightarrow>
                   s\<lparr>state := continue (awaited_by c) (getPerformanceMetrics_resume vs (state s)),
                     cycles := (cycles s)[i := c\<lparr>resumed := True\<rparr>]\<rparr>)
      else s)"

definition run :: "action list \<Rightarrow> session \<Rightarrow> session" where
  "run acts s = fold step acts s"

section \<open>Notions used to state the properties\<close>

text \<open>What one difference takes off the running score.\<close>

definition penalty :: "real option \<Rightarrow> real" where
  "penalty diff = (case diff of Some d \<Rightarrow> if d > 0 then d else 0 | None \<Rightarrow> 0)"

text \<open>The seven scalar fields of the snapshot, by name.\<close>

datatype scalar =
    FirstContentfulPaint
  | TimeToInteractive
  | LargestContentfulPaint
  | CumulativeLayoutShift
  | FirstInputDelay
  | InteractionToNextPaint
  | TimeToFirstByte

fun get_scalar :: "scalar \<Rightarrow> metrics \<Rightarrow> jsval" where
  "get_scalar FirstContentfulPaint pm = firstContentfulPaint pm"
| "get_scalar TimeToInteractive pm = timeToInteractive pm"
| "get_scalar LargestContentfulPaint pm = largestContentfulPaint pm"
| "get_scalar CumulativeLayoutShift pm = cumulativeLayoutShift pm"
| "get_scalar FirstInputDelay pm = firstInputDelay pm"
| "get_scalar InteractionToNextPaint pm = interactionToNextPaint pm"
| "get_scalar TimeToFirstByte pm = timeToFirstByte pm"

fun set_scalar :: "scalar \<Rightarrow> jsval \<Rightarrow> metrics \<Rightarrow> metrics" where
  "set_scalar FirstContentfulPaint v pm = pm\<lparr>firstContentfulPaint := v\<rparr>"
| "set_scalar TimeToInteractive v pm = pm\<lparr>timeToInteractive := v\<rparr>"
| "set_scalar LargestContentfulPaint v pm = pm\<lparr>largestContentfulPaint := v\<rparr>"
| "set_scalar CumulativeLayoutShift v pm = pm\<lparr>cumulativeLayoutShift := v\<rparr>"
| "set_scalar FirstInputDelay v pm = pm\<lparr>firstInputDelay := v\<rparr>"
| "set_scalar InteractionToNextPaint v pm = pm\<lparr>interactionToNextPaint := v\<rparr>"
| "set_scalar TimeToFirstByte v pm = pm\<lparr>timeToFirstByte := v\<rparr>"

text \<open>The default ceiling the score compares a scalar field with.\<close>

fun ceiling_of :: "scalar \<Rightarrow> real" where
  "ceiling_of FirstContentfulPaint = fcp defaultThresholds"
| "ceiling_of TimeToInteractive = tti defaultThresholds"
| "ceiling_of LargestContentfulPaint = lcp defaultThresholds"
| "ceiling_of CumulativeLayoutShift = cls defaultThresholds"
| "ceiling_of FirstInputDelay = fid defaultThresholds"
| "ceiling_of InteractionToNextPaint = inp defaultThresholds"
| "ceiling_of TimeToFirstByte = ttfb defaultThresholds"

definition all_scalars :: "scalar list" where
  "all_scalars =
     [FirstContentfulPaint, TimeToInteractive, LargestContentfulPaint, CumulativeLayoutShift,
      FirstInputDelay, InteractionToNextPaint, TimeToFirstByte]"

text \<open>
  A value with no overage against a ceiling: its numeric reading is at most the
  ceiling, or it has none.
\<close>

definition no_overage :: "jsval \<Rightarrow> real \<Rightarrow> bool" where
  "no_overage v c = (case toNumber v of Some x \<Rightarrow> x \<le> c | None \<Rightarrow> True)"

definition within_ceilings :: "metrics \<Rightarrow> bool" where
  "within_ceilings pm =
     (list_all (\<lambda>k. no_overage (get_scalar k pm) (ceiling_of k)) all_scalars \<and>
      list_all (\<lambda>r. renderTime r \<le> componentRenderTime defaultThresholds)
        (componentRenderTimes pm))"

text \<open>The alert of one scalar field and of one render record, as lists.\<close>

definition metric_alert :: "string \<Rightarrow> jsval \<Rightarrow> real option \<Rightarrow> console_entry list" where
  "metric_alert label v t = (if v \<noteq> Null \<and> js_gt v t then [Warn_exceeded label v t] else [])"

definition component_alert :: "real option \<Rightarrow> real render_record \<Rightarrow> console_entry list" where
  "component_alert t r =
     (if num_gt (renderTime r) t then [Warn_component (name r) (renderTime r) t] else [])"

text \<open>The records a list of actions pushes, in order.\<close>

fun pushed :: "action list \<Rightarrow> real render_record list" where
  "pushed [] = []"
| "pushed (TrackComponentRender n t # acts) = \<lparr>name = n, renderTime = t\<rparr> # pushed acts"
| "pushed (_ # acts) = pushed acts"

section \<open>Concrete snapshots and hosts\<close>

text \<open>A snapshot in which every known metric is at its default ceiling.\<close>

definition at_ceilings :: metrics where
  "at_ceilings =
     \<lparr>firstContentfulPaint = Str ''2000.00'', timeToInteractive = Str ''3000.00'',
      largestContentfulPaint = Null, cumulativeLayoutShift = Str ''0.1000'',
      firstInputDelay = Str ''100.00'', interactionToNextPaint = Null,
      timeToFirstByte = Str ''800.00'',
      componentRenderTimes = [\<lparr>name = ''Widget'', renderTime = 500\<rparr>]\<rparr>"

text \<open>
  The snapshot of the specification's scoring scenario: first contentful paint 2500 ms,
  time to interactive and layout shift at their ceilings, the rest unknown.
\<close>

definition spec_scenario :: metrics where
  "spec_scenario =
     \<lparr>firstContentfulPaint = Str ''2500.00'', timeToInteractive = Str ''3000.00'',
      largestContentfulPaint = Null, cumulativeLayoutShift = Str ''0.1000'',
      firstInputDelay = Null, interactionToNextPaint = Null,
      timeToFirstByte = Null,
      componentRenderTimes = []\<rparr>"

text \<open>The module's state with a first contentful paint of 5000 ms stored.\<close>

definition slow_paint :: globals where
  "slow_paint =
     initial_globals
       \<lparr>performanceMetrics := initial_metrics\<lparr>firstContentfulPaint := Str ''5000.00''\<rparr>\<rparr>"

text \<open>A host with no \<^verbatim>\<open>window\<close> (server-side rendering), and a browser.\<close>

definition server_host :: host where
  "server_host =
     \<lparr>window_defined = False, PerformanceObserver_in_window = False, readyState_complete = False,
      now = 0, responseStart = 0, requestStart = 0\<rparr>"

definition browser_host :: host where
  "browser_host =
     \<lparr>window_defined = True, PerformanceObserver_in_window = True, readyState_complete = True,
      now = 1500, responseStart = 350, requestStart = 100\<rparr>"

text \<open>Entries the browser delivers, one per observer.\<close>

definition paint_entry :: entry where
  "paint_entry =
     \<lparr>entry_name = ''first-contentful-paint'', startTime = 1234.5, processingStart = 0,
      hadRecentInput = False, shift_value = 0\<rparr>"

definition largest_entry :: entry where
  "largest_entry =
     \<lparr>entry_name = '''', startTime = 1800, processingStart = 0, hadRecentInput = False,
      shift_value = 0\<rparr>"

definition shift_entry :: entry where
  "shift_entry =
     \<lparr>entry_name = '''', startTime = 900, processingStart = 0, hadRecentInput = False,
      shift_value = 0.05\<rparr>"

definition input_entry :: entry where
  "input_entry =
     \<lparr>entry_name = ''pointerdown'', startTime = 2000, processingStart = 2012,
      hadRecentInput = False, shift_value = 0\<rparr>"

text \<open>
  A first aggregation in which every collector gets its observation, a second call
  after it in which neither a first input nor a click arrives before the timers fire,
  and a first call of that kind on a fresh page.
\<close>

definition first_cycle :: "action list" where
  "first_cycle =
     [GetPerformanceMetrics browser_host,
      Deliver 0 (Paint [paint_entry]),
      Deliver 0 (Largest_paint [largest_entry]),
      Deliver 0 (Layout_shift [shift_entry]),
      Deliver 0 (First_input [input_entry]),
      Deliver 0 (Click 2600 2580),
      Resume 0]"

definition second_call :: "action list" where
  "second_call =
     [GetPerformanceMetrics browser_host,
      Deliver 1 First_input_timeout,
      Deliver 1 Interaction_timeout]"

definition quiet_call :: "action list" where
  "quiet_call =
     [GetPerformanceMetrics browser_host,
      Deliver 0 First_input_timeout,
      Deliver 0 Interaction_timeout]"

section \<open>Notions for the stored values\<close>

text \<open>The value of a string of decimal digits, read from the left.\<close>

definition is_digit :: "char \<Rightarrow> bool" where
  "is_digit c = (digit_val c \<noteq> None)"

definition digit_of :: "char \<Rightarrow> nat" where
  "digit_of c = (case digit_val c of Some d \<Rightarrow> d | None \<Rightarrow> 0)"

definition value_from :: "nat \<Rightarrow> string \<Rightarrow> nat" where
  "value_from acc s = foldl (\<lambda>a c. 10 * a + digit_of c) acc s"

text \<open>The number of decimals a scalar field is formatted to where it is observed.\<close>

fun precision :: "scalar \<Rightarrow> nat" where
  "precision FirstContentfulPaint = 2"
| "precision TimeToInteractive = 2"
| "precision LargestContentfulPaint = 2"
| "precision CumulativeLayoutShift = 4"
| "precision FirstInputDelay = 2"
| "precision InteractionToNextPaint = 2"
| "precision TimeToFirstByte = 2"

text \<open>
  What a scalar field can hold: \<^verbatim>\<open>null\<close>, the initial number 0 of the layout shift, or
  the string \<open>toFixed\<close> gave for a non-negative reading.
\<close>

definition formatted :: "nat \<Rightarrow> jsval \<Rightarrow> bool" where
  "formatted f v = (\<exists>x\<ge>0. v = Str (toFixed f x))"

definition stored_ok :: "scalar \<Rightarrow> jsval \<Rightarrow> bool" where
  "stored_ok k v =
     (v = Null \<or> (k = CumulativeLayoutShift \<and> v = Num 0) \<or> formatted (precision k) v)"

text \<open>A value that is \<^verbatim>\<open>null\<close> or a non-negative number.\<close>

definition number_or_unknown :: "jsval \<Rightarrow> bool" where
  "number_or_unknown v = (case v of Null \<Rightarrow> True | Num x \<Rightarrow> 0 \<le> x | Str s \<Rightarrow> False)"

text \<open>The same for the promise of a collector, for a call in flight and for a session.\<close>

definition settled_ok :: "nat \<Rightarrow> jsval promise \<Rightarrow> bool" where
  "settled_ok f p = (case p of Fulfilled v \<Rightarrow> v = Null \<or> formatted f v | _ \<Rightarrow> True)"

definition cycle_ok :: "cycle \<Rightarrow> bool" where
  "cycle_ok c =
     (settled_ok 2 (promise (c_fcp c)) \<and> settled_ok 2 (promise (c_tti c)) \<and>
      settled_ok 2 (promise (c_lcp c)) \<and> settled_ok 4 (promise (c_cls c)) \<and>
      0 \<le> clsValue (c_cls c) \<and> settled_ok 2 (promise (c_fid c)) \<and>
      settled_ok 2 (promise (c_inp c)) \<and> settled_ok 2 (promise (c_ttfb c)))"

definition session_ok :: "session \<Rightarrow> bool" where
  "session_ok s =
     ((\<forall>k. stored_ok k (get_scalar k (performanceMetrics (state s)))) \<and>
      list_all cycle_ok (cycles s))"

text \<open>
  Readings a host can give: the clock and the start times are not negative, a layout
  shift is not negative, an input is processed no earlier than it started, the response
  starts no earlier than the request, and a click is not stamped after the clock.
\<close>

definition plausible_host :: "host \<Rightarrow> bool" where
  "plausible_host h = (0 \<le> now h \<and> requestStart h \<le> responseStart h)"

fun plausible_event :: "event \<Rightarrow> bool" where
  "plausible_event (Paint es) = list_all (\<lambda>e. 0 \<le> startTime e) es"
| "plausible_event (Load t) = (0 \<le> t)"
| "plausible_event (Largest_paint es) = list_all (\<lambda>e. 0 \<le> startTime e) es"
| "plausible_event (Layout_shift es) = list_all (\<lambda>e. 0 \<le> shift_value e) es"
| "plausible_event (First_input es) = list_all (\<lambda>e. startTime e \<le> processingStart e) es"
| "plausible_event First_input_timeout = True"
| "plausible_event (Click t timeStamp) = (timeStamp \<le> t)"
| "plausible_event Interaction_timeout = True"

fun plausible :: "action \<Rightarrow> bool" where
  "plausible (TrackComponentRender n t) = True"
| "plausible (GetPerformanceMetrics h) = plausible_host h"
| "plausible (RunGamification h) = plausible_host h"
| "plausible (RunPerformanceTracker opts h) = plausible_host h"
| "plausible (CheckPerformanceAlerts a) = True"
| "plausible (Deliver i ev) = plausible_event ev"
| "plausible (Resume i) = True"

section \<open>Feedback tiers\<close>

lemma provideFeedback_console:
  "console (provideFeedback score g) =
     console g @
       [Log_feedback
          (if 90 \<le> score then Some (Message Excellent score)
           else if 70 \<le> score then Some (Message Good_job score)
           else if 0 \<le> score then Some (Message Needs_Improvement score)
           else None)]"
  by (simp add: provideFeedback_def feedbackMap_def)

text \<open>
  C5: for an integer score from 0 to 100, \<^verbatim>\<open>provideFeedback\<close> logs the message of the
  first tier whose threshold the score reaches: the excellent tier from 90 up, the good
  tier from 70 to 89, the needs-improvement tier below 70; it changes nothing but the
  console.
\<close>

theorem provideFeedback_tiers:
  assumes "0 \<le> score" and "score \<le> 100"
  shows "console (provideFeedback score g) =
           console g @
             [Log_feedback
                (Some (Message (if 90 \<le> score then Excellent
                                else if 70 \<le> score then Good_job
                                else Needs_Improvement) score))] \<and>
         performanceMetrics (provideFeedback score g) = performanceMetrics g"
  using assms by (simp add: provideFeedback_console) (simp add: provideFeedback_def)

theorem provideFeedback_tiers_witness:
  "console (provideFeedback 90 initial_globals) = [Log_feedback (Some (Message Excellent 90))] \<and>
   console (provideFeedback 89 initial_globals) = [Log_feedback (Some (Message Good_job 89))] \<and>
   console (provideFeedback 70 initial_globals) = [Log_feedback (Some (Message Good_job 70))] \<and>
   console (provideFeedback 69 initial_globals) =
     [Log_feedback (Some (Message Needs_Improvement 69))] \<and>
   console (provideFeedback 0 initial_globals) =
     [Log_feedback (Some (Message Needs_Improvement 0))]"
  using provideFeedback_tiers [of 90 initial_globals]
    provideFeedback_tiers [of 89 initial_globals]
    provideFeedback_tiers [of 70 initial_globals]
    provideFeedback_tiers [of 69 initial_globals]
    provideFeedback_tiers [of 0 initial_globals]
  by (simp add: initial_globals_def)

section \<open>The score\<close>

lemma subtract_if_positive_penalty: "subtract_if_positive d s = s - penalty d"
  by (simp add: subtract_if_positive_def penalty_def split: option.splits)

lemma penalty_nonneg: "0 \<le> penalty d"
  by (simp add: penalty_def split: option.splits)

lemma fold_subtract: "fold subtract_if_positive ds s = s - sum_list (map penalty ds)"
  by (induction ds arbitrary: s) (simp_all add: subtract_if_positive_penalty)

lemma fold_subtract_render:
  "fold (\<lambda>r. subtract_if_positive (render_diff r)) rs s =
     s - sum_list (map (\<lambda>r. penalty (render_diff r)) rs)"
  by (induction rs arbitrary: s) (simp_all add: subtract_if_positive_penalty)

text \<open>The two loops in closed form: the maximum less every penalty.\<close>

lemma running_score_eq:
  "running_score pm =
     MAX_SCORE - sum_list (map penalty (metricDifferences pm))
       - sum_list (map (\<lambda>r. penalty (render_diff r)) (componentRenderTimes pm))"
  by (simp add: running_score_def fold_subtract fold_subtract_render)

lemma sum_list_penalty_nonneg: "0 \<le> sum_list (map penalty ds)"
  by (induction ds) (simp_all add: penalty_nonneg)

lemma sum_list_render_penalty_nonneg: "0 \<le> sum_list (map (\<lambda>r. penalty (render_diff r)) rs)"
  by (induction rs) (simp_all add: penalty_nonneg)

lemma running_score_le: "running_score pm \<le> 100"
  using sum_list_penalty_nonneg [of "metricDifferences pm"]
    sum_list_render_penalty_nonneg [of "componentRenderTimes pm"]
  by (simp add: running_score_eq MAX_SCORE_def)

lemma Math_round_mono: "x \<le> y \<Longrightarrow> Math_round x \<le> Math_round y"
  by (simp add: Math_round_def floor_mono)

lemma Math_round_100: "Math_round 100 = 100"
  by (simp add: Math_round_def)

lemma score_bounds: "0 \<le> calculatePerformanceScore pm \<and> calculatePerformanceScore pm \<le> 100"
  using Math_round_mono [OF running_score_le [of pm]]
  by (simp add: calculatePerformanceScore_def Math_round_100)

lemma penalty_no_overage_div:
  "no_overage v c \<Longrightarrow> penalty (map_option (\<lambda>x. x / 100) (js_minus v c)) = 0"
  by (auto simp: no_overage_def penalty_def js_minus_def split: option.splits)

lemma penalty_no_overage_mul:
  "no_overage v c \<Longrightarrow> penalty (map_option (\<lambda>x. x * 100) (js_minus v c)) = 0"
  by (auto simp: no_overage_def penalty_def js_minus_def split: option.splits)

lemma render_penalty_zero:
  "list_all (\<lambda>r. renderTime r \<le> componentRenderTime defaultThresholds) rs \<Longrightarrow>
     sum_list (map (\<lambda>r. penalty (render_diff r)) rs) = 0"
  by (induction rs) (auto simp: penalty_def render_diff_def)

lemma within_ceilings_running: "within_ceilings pm \<Longrightarrow> running_score pm = 100"
  by (simp add: within_ceilings_def all_scalars_def running_score_eq metricDifferences_def
      penalty_no_overage_div penalty_no_overage_mul render_penalty_zero MAX_SCORE_def)

lemma at_ceilings_within: "within_ceilings at_ceilings"
  by (simp add: within_ceilings_def at_ceilings_def all_scalars_def no_overage_def
      defaultThresholds_def toNumber_def StringToNumber_def StrUnsignedDecimalLiteral_def
      digit_val_def)

text \<open>
  C3: for every snapshot (any known or unknown scalar values, any list of render
  records) \<^verbatim>\<open>calculatePerformanceScore\<close> returns an integer from 0 to 100, and it
  returns 100 when no metric is above its default ceiling, in particular when every
  known metric is at its ceiling.
\<close>

theorem calculatePerformanceScore_range:
  "0 \<le> calculatePerformanceScore pm \<and> calculatePerformanceScore pm \<le> 100 \<and>
   (within_ceilings pm \<longrightarrow> calculatePerformanceScore pm = 100)"
  using score_bounds [of pm] within_ceilings_running [of pm]
  by (auto simp: calculatePerformanceScore_def Math_round_100)

theorem calculatePerformanceScore_range_witness:
  "within_ceilings at_ceilings \<and> calculatePerformanceScore at_ceilings = 100"
  using calculatePerformanceScore_range [of at_ceilings] at_ceilings_within by simp

lemma penalty_mono_div:
  "toNumber v1 = Some x1 \<Longrightarrow> toNumber v2 = Some x2 \<Longrightarrow> x1 \<le> x2 \<Longrightarrow>
     penalty (map_option (\<lambda>x. x / 100) (js_minus v1 c))
       \<le> penalty (map_option (\<lambda>x. x / 100) (js_minus v2 c))"
  by (auto simp: penalty_def js_minus_def)

lemma penalty_mono_mul:
  "toNumber v1 = Some x1 \<Longrightarrow> toNumber v2 = Some x2 \<Longrightarrow> x1 \<le> x2 \<Longrightarrow>
     penalty (map_option (\<lambda>x. x * 100) (js_minus v1 c))
       \<le> penalty (map_option (\<lambda>x. x * 100) (js_minus v2 c))"
  by (auto simp: penalty_def js_minus_def)

lemma running_score_mono_scalar:
  assumes "toNumber v1 = Some x1" and "toNumber v2 = Some x2" and "x1 \<le> x2"
  shows "running_score (set_scalar k v2 pm) \<le> running_score (set_scalar k v1 pm)"
  using penalty_mono_div [OF assms] penalty_mono_mul [OF assms]
  by (cases k) (simp_all add: running_score_eq metricDifferences_def)

lemma running_score_mono_render:
  assumes "t1 \<le> t2"
  shows "running_score (pm\<lparr>componentRenderTimes := xs @ \<lparr>name = n, renderTime = t2\<rparr> # ys\<rparr>)
           \<le> running_score (pm\<lparr>componentRenderTimes := xs @ \<lparr>name = n, renderTime = t1\<rparr> # ys\<rparr>)"
  using assms
  by (simp add: running_score_eq metricDifferences_def render_diff_def penalty_def)

lemma penalty_Null_div: "0 \<le> c \<Longrightarrow> penalty (map_option (\<lambda>x. x / 100) (js_minus Null c)) = 0"
  by (simp add: penalty_def js_minus_def toNumber_def)

lemma penalty_Null_mul: "0 \<le> c \<Longrightarrow> penalty (map_option (\<lambda>x. x * 100) (js_minus Null c)) = 0"
  by (simp add: penalty_def js_minus_def toNumber_def mult_le_0_iff)

lemma running_score_Null_greatest:
  "running_score (set_scalar k v pm) \<le> running_score (set_scalar k Null pm)"
  by (cases k)
    (simp_all add: running_score_eq metricDifferences_def penalty_Null_div penalty_Null_mul
      defaultThresholds_def penalty_nonneg)

lemma running_score_Null_eq:
  "no_overage v (ceiling_of k) \<Longrightarrow>
     running_score (set_scalar k v pm) = running_score (set_scalar k Null pm)"
  by (cases k)
    (simp_all add: running_score_eq metricDifferences_def penalty_Null_div penalty_Null_mul
      defaultThresholds_def penalty_no_overage_div penalty_no_overage_mul)

lemma score_mono:
  "running_score a \<le> running_score b \<Longrightarrow>
     calculatePerformanceScore a \<le> calculatePerformanceScore b"
  using Math_round_mono [of "running_score a" "running_score b"]
  by (simp add: calculatePerformanceScore_def)

text \<open>
  C4: the score does not rise when the numeric value of one scalar field rises, nor when
  the render time of one record rises, everything else held fixed. An unknown field
  takes nothing off the score: no value of the field gives a higher score than
  \<^verbatim>\<open>null\<close> does, and a value with no overage gives the same score.
\<close>

theorem calculatePerformanceScore_monotone:
  "(toNumber v1 = Some x1 \<and> toNumber v2 = Some x2 \<and> x1 \<le> x2 \<longrightarrow>
      calculatePerformanceScore (set_scalar k v2 pm)
        \<le> calculatePerformanceScore (set_scalar k v1 pm)) \<and>
   (t1 \<le> t2 \<longrightarrow>
      calculatePerformanceScore
          (pm\<lparr>componentRenderTimes := xs @ \<lparr>name = n, renderTime = t2\<rparr> # ys\<rparr>)
        \<le> calculatePerformanceScore
             (pm\<lparr>componentRenderTimes := xs @ \<lparr>name = n, renderTime = t1\<rparr> # ys\<rparr>)) \<and>
   calculatePerformanceScore (set_scalar k v pm)
     \<le> calculatePerformanceScore (set_scalar k Null pm) \<and>
   (no_overage v (ceiling_of k) \<longrightarrow>
      calculatePerformanceScore (set_scalar k v pm)
        = calculatePerformanceScore (set_scalar k Null pm))"
proof (intro conjI impI)
  assume "toNumber v1 = Some x1 \<and> toNumber v2 = Some x2 \<and> x1 \<le> x2"
  then show "calculatePerformanceScore (set_scalar k v2 pm)
        \<le> calculatePerformanceScore (set_scalar k v1 pm)"
    by (intro score_mono running_score_mono_scalar [of v1 x1 v2 x2]) simp_all
next
  assume "t1 \<le> t2"
  then show "calculatePerformanceScore
          (pm\<lparr>componentRenderTimes := xs @ \<lparr>name = n, renderTime = t2\<rparr> # ys\<rparr>)
        \<le> calculatePerformanceScore
             (pm\<lparr>componentRenderTimes := xs @ \<lparr>name = n, renderTime = t1\<rparr> # ys\<rparr>)"
    by (intro score_mono running_score_mono_render)
next
  show "calculatePerformanceScore (set_scalar k v pm)
     \<le> calculatePerformanceScore (set_scalar k Null pm)"
    by (intro score_mono running_score_Null_greatest)
next
  assume "no_overage v (ceiling_of k)"
  then show "calculatePerformanceScore (set_scalar k v pm)
        = calculatePerformanceScore (set_scalar k Null pm)"
    by (simp add: calculatePerformanceScore_def running_score_Null_eq)
qed

lemmas eval_defs =
  calculatePerformanceScore_def running_score_def metricDifferences_def spec_scenario_def
  defaultThresholds_def toNumber_def StringToNumber_def StrUnsignedDecimalLiteral_def
  js_minus_def digit_val_def subtract_if_positive_def MAX_SCORE_def Math_round_def
  render_diff_def no_overage_def

theorem calculatePerformanceScore_monotone_witness:
  "toNumber (Str ''2500.00'') = Some 2500 \<and> toNumber (Str ''9000.00'') = Some 9000 \<and>
   calculatePerformanceScore (set_scalar FirstContentfulPaint (Str ''9000.00'') spec_scenario) = 30 \<and>
   calculatePerformanceScore (set_scalar FirstContentfulPaint (Str ''2500.00'') spec_scenario) = 95 \<and>
   calculatePerformanceScore
      (spec_scenario\<lparr>componentRenderTimes := [] @ \<lparr>name = ''Widget'', renderTime = 900\<rparr> # []\<rparr>)
     \<le> calculatePerformanceScore
      (spec_scenario\<lparr>componentRenderTimes := [] @ \<lparr>name = ''Widget'', renderTime = 600\<rparr> # []\<rparr>) \<and>
   no_overage (Str ''1500.00'') (ceiling_of FirstContentfulPaint) \<and>
   calculatePerformanceScore (set_scalar FirstContentfulPaint (Str ''1500.00'') spec_scenario)
     = calculatePerformanceScore (set_scalar FirstContentfulPaint Null spec_scenario)"
  using calculatePerformanceScore_monotone [of "Str ''2500.00''" 2500 "Str ''9000.00''" 9000
      FirstContentfulPaint spec_scenario 600 900 "[]" "''Widget''" "[]" "Str ''1500.00''"]
  by (simp add: eval_defs)

section \<open>Evaluating the conversions\<close>

lemma digits_numeral:
  "digits (numeral k) =
     (if (numeral k :: nat) < 10 then [digit_char (numeral k)]
      else digits (numeral k div 10) @ [digit_char (numeral k mod 10)])"
  by (rule digits.simps)

lemma digits_0: "digits 0 = ''0''"
  by (simp add: digits.simps [of 0] digit_char_def)

lemma digits_1: "digits 1 = ''1''"
  by (subst digits.simps) (simp add: digit_char_def)

lemma digits_Suc_0: "digits (Suc 0) = ''1''"
  by (subst digits.simps) (simp add: digit_char_def)

lemmas toFixed_eval =
  toFixed_def toFixed_abs_def Let_def digits_numeral digits_0 digits_1 digits_Suc_0
  digit_char_def

lemmas toNumber_eval =
  toNumber_def StringToNumber_def StrUnsignedDecimalLiteral_def digit_val_def

section \<open>Alerts\<close>

lemma check_metric_eq: "check_metric l v t g = g\<lparr>console := console g @ metric_alert l v t\<rparr>"
  by (simp add: check_metric_def metric_alert_def warn_def)

lemma check_component_eq: "check_component t r g = g\<lparr>console := console g @ component_alert t r\<rparr>"
  by (simp add: check_component_def component_alert_def warn_def)

lemma fold_check_component:
  "fold (check_component t) rs g = g\<lparr>console := console g @ concat (map (component_alert t) rs)\<rparr>"
  by (induction rs arbitrary: g) (simp_all add: check_component_eq)

text \<open>
  What one call writes: the alerts of the seven scalar fields in the order of the source,
  then those of the render records in the order of the list.
\<close>

lemma checkPerformanceAlerts_eq:
  "checkPerformanceAlerts a g =
     g\<lparr>console := console g @
         metric_alert ''FCP'' (firstContentfulPaint (performanceMetrics g)) (fcp (destructured a)) @
         metric_alert ''LCP'' (largestContentfulPaint (performanceMetrics g)) (lcp (destructured a)) @
         metric_alert ''TTI'' (timeToInteractive (performanceMetrics g)) (tti (destructured a)) @
         metric_alert ''CLS'' (cumulativeLayoutShift (performanceMetrics g)) (cls (destructured a)) @
         metric_alert ''FID'' (firstInputDelay (performanceMetrics g)) (fid (destructured a)) @
         metric_alert ''INP'' (interactionToNextPaint (performanceMetrics g)) (inp (destructured a)) @
         metric_alert ''TTFB'' (timeToFirstByte (performanceMetrics g)) (ttfb (destructured a)) @
         concat (map (component_alert (componentRenderTime (destructured a)))
           (componentRenderTimes (performanceMetrics g)))\<rparr>"
  by (simp add: checkPerformanceAlerts_def Let_def check_metric_eq fold_check_component)

text \<open>
  C1 says that a key absent from the thresholds falls back to its default, key by key.
  In \<^verbatim>\<open>checkPerformanceAlerts\<close> it does not: with a first contentful paint of 5000 ms
  stored, a call with no argument, with \<^verbatim>\<open>{}\<close> or with \<^verbatim>\<open>{lcp: 2300}\<close> writes no alert,
  since the absent \<^verbatim>\<open>fcp\<close> is \<^verbatim>\<open>undefined\<close> and the comparison with it is false. The
  defaults apply as a whole to the argument \<^verbatim>\<open>null\<close> only. The key-by-key fallback is
  the spread in \<^verbatim>\<open>runPerformanceTracker\<close>, where the same thresholds do give the alert.
\<close>

theorem checkPerformanceAlerts_absent_keys:
  "console (checkPerformanceAlerts Omitted slow_paint) = [] \<and>
   console (checkPerformanceAlerts (Given no_thresholds) slow_paint) = [] \<and>
   console (checkPerformanceAlerts (Given (no_thresholds\<lparr>lcp := Some 2300\<rparr>)) slow_paint) = [] \<and>
   console (checkPerformanceAlerts Null_arg slow_paint) =
     [Warn_exceeded ''FCP'' (Str ''5000.00'') (Some 2000)] \<and>
   console (alerts_and_gamification
       (default_options\<lparr>enableGamification := False, thresholds := no_thresholds\<lparr>lcp := Some 2300\<rparr>\<rparr>) slow_paint) =
     [Warn_exceeded ''FCP'' (Str ''5000.00'') (Some 2000)]"
  by (simp add: slow_paint_def initial_globals_def initial_metrics_def checkPerformanceAlerts_eq metric_alert_def
      destructured_def all_keys_def defaultThresholds_def num_gt_def js_gt_def toNumber_def
      StringToNumber_def StrUnsignedDecimalLiteral_def digit_val_def no_thresholds_def
      alerts_and_gamification_def default_options_def spread_def spread_key_def)

section \<open>Recording a component render\<close>

text \<open>
  C9 as it is stated, that \<^verbatim>\<open>trackComponentRender('Widget', 734.567)\<close> returns a record
  whose \<^verbatim>\<open>renderTime\<close> is the number 734.57, fails: the time that is returned is what
  \<^verbatim>\<open>toFixed(2)\<close> gave, the string \<^verbatim>\<open>734.57\<close>, which is neither that number nor any
  number.
\<close>

theorem trackComponentRender_Widget_returns_string:
  "renderTime (fst (trackComponentRender ''Widget'' 734.567 initial_globals)) = ''734.57'' \<and>
   Str (renderTime (fst (trackComponentRender ''Widget'' 734.567 initial_globals)))
     \<noteq> Num 734.57 \<and>
   \<not> number_or_unknown
       (Str (renderTime (fst (trackComponentRender ''Widget'' 734.567 initial_globals))))"
  by (simp add: trackComponentRender_def toFixed_eval number_or_unknown_def)

text \<open>
  C9, amended: \<^verbatim>\<open>trackComponentRender('Widget', 734.567)\<close> returns, as the value of the
  call and not as a promise, the record with the name and, as its time, the string
  \<^verbatim>\<open>734.57\<close> that \<^verbatim>\<open>toFixed(2)\<close> gives, which reads as the number 734.57; and the
  stored list is the one before with one record for \<^verbatim>\<open>Widget\<close>, holding the time
  734.567 as it came, added at its end.
\<close>

theorem trackComponentRender_Widget:
  "trackComponentRender ''Widget'' 734.567 g =
     (\<lparr>name = ''Widget'', renderTime = ''734.57''\<rparr>,
      g\<lparr>performanceMetrics :=
          (performanceMetrics g)\<lparr>componentRenderTimes :=
             componentRenderTimes (performanceMetrics g) @
               [\<lparr>name = ''Widget'', renderTime = 734.567\<rparr>]\<rparr>\<rparr>) \<and>
   toNumber (Str (renderTime (fst (trackComponentRender ''Widget'' 734.567 g)))) = Some 734.57"
  by (simp add: trackComponentRender_def toFixed_eval toNumber_eval)

theorem trackComponentRender_Widget_witness:
  "trackComponentRender ''Widget'' 734.567 initial_globals =
     (\<lparr>name = ''Widget'', renderTime = ''734.57''\<rparr>,
      \<lparr>performanceMetrics =
          initial_metrics\<lparr>componentRenderTimes := [\<lparr>name = ''Widget'', renderTime = 734.567\<rparr>]\<rparr>,
       console = []\<rparr>) \<and>
   toNumber (Str (renderTime (fst (trackComponentRender ''Widget'' 734.567 initial_globals))))
     = Some 734.57"
proof -
  note widget = trackComponentRender_Widget [of initial_globals]
  have returned: "trackComponentRender ''Widget'' 734.567 initial_globals =
     (\<lparr>name = ''Widget'', renderTime = ''734.57''\<rparr>,
      \<lparr>performanceMetrics =
          initial_metrics\<lparr>componentRenderTimes := [\<lparr>name = ''Widget'', renderTime = 734.567\<rparr>]\<rparr>,
       console = []\<rparr>)"
    using widget by (simp add: initial_globals_def initial_metrics_def)
  have reads: "toNumber (Str (renderTime (fst (trackComponentRender ''Widget'' 734.567
      initial_globals)))) = Some 734.57"
    using widget by (rule conjunct2)
  show ?thesis
    using returned reads by (rule conjI)
qed

text \<open>
  C10: the record that is stored carries the argument as it came, the record that is
  returned the string formatted to two decimals. Alerts and the score read the stored
  one: the call adds to the alerts of a later check exactly the alert of the raw time,
  and takes off the running score exactly the overage of the raw time.
\<close>

theorem trackComponentRender_raw:
  "fst (trackComponentRender n t g) = \<lparr>name = n, renderTime = toFixed 2 t\<rparr> \<and>
   componentRenderTimes (performanceMetrics (snd (trackComponentRender n t g))) =
     componentRenderTimes (performanceMetrics g) @ [\<lparr>name = n, renderTime = t\<rparr>] \<and>
   console (checkPerformanceAlerts a (snd (trackComponentRender n t g))) =
     console (checkPerformanceAlerts a g) @
       (if num_gt t (componentRenderTime (destructured a))
        then [Warn_component n t (componentRenderTime (destructured a))] else []) \<and>
   running_score (performanceMetrics (snd (trackComponentRender n t g))) =
     (if (t - componentRenderTime defaultThresholds) / 100 > 0
      then running_score (performanceMetrics g) - (t - componentRenderTime defaultThresholds) / 100
      else running_score (performanceMetrics g))"
  by (simp add: trackComponentRender_def Let_def checkPerformanceAlerts_eq component_alert_def
      running_score_eq metricDifferences_def render_diff_def penalty_def)

lemma initial_no_alerts: "console (checkPerformanceAlerts Null_arg initial_globals) = []"
  by (simp add: initial_globals_def initial_metrics_def checkPerformanceAlerts_eq metric_alert_def
      destructured_def all_keys_def defaultThresholds_def js_gt_def toNumber_def)

lemma initial_running_score: "running_score (performanceMetrics initial_globals) = 100"
  by (simp add: initial_globals_def initial_metrics_def running_score_eq metricDifferences_def
      js_minus_def toNumber_def penalty_def MAX_SCORE_def defaultThresholds_def)

theorem trackComponentRender_raw_witness:
  "fst (trackComponentRender ''Widget'' 500.004 initial_globals) =
     \<lparr>name = ''Widget'', renderTime = ''500.00''\<rparr> \<and>
   console (checkPerformanceAlerts Null_arg
       (snd (trackComponentRender ''Widget'' 500.004 initial_globals))) =
     [Warn_component ''Widget'' 500.004 (Some 500)] \<and>
   \<not> js_gt (Str ''500.00'') (Some 500) \<and>
   running_score (performanceMetrics (snd (trackComponentRender ''Widget'' 500.004 initial_globals)))
     = 100 - 0.00004"
proof -
  note raw = trackComponentRender_raw [of "''Widget''" "500.004" initial_globals Null_arg]
  have returned: "fst (trackComponentRender ''Widget'' 500.004 initial_globals) =
      \<lparr>name = ''Widget'', renderTime = ''500.00''\<rparr>"
    using raw by (simp add: toFixed_eval)
  have alerts: "console (checkPerformanceAlerts Null_arg
       (snd (trackComponentRender ''Widget'' 500.004 initial_globals))) =
     [Warn_component ''Widget'' 500.004 (Some 500)]"
    using raw
    by (simp add: initial_no_alerts destructured_def all_keys_def defaultThresholds_def num_gt_def)
  have formatted: "\<not> js_gt (Str ''500.00'') (Some 500)"
    by (simp add: js_gt_def toNumber_eval)
  have score: "running_score
      (performanceMetrics (snd (trackComponentRender ''Widget'' 500.004 initial_globals)))
     = 100 - 0.00004"
    using raw by (simp add: initial_running_score defaultThresholds_def)
  show ?thesis
    using returned alerts formatted score by blast
qed

section \<open>The collectors without a window\<close>

lemmas collector_defs =
  trackFirstContentfulPaint_def trackTimeToInteractive_def trackLargestContentfulPaint_def
  trackCumulativeLayoutShift_def trackFirstInputDelay_def trackInteractionToNextPaint_def
  trackTimeToFirstByte_def unsupported_def resolve_def

lemmas handler_defs =
  firstContentfulPaint_observer_def timeToInteractive_load_def
  largestContentfulPaint_observer_def layoutShift_observer_def firstInput_observer_def
  firstInput_timeout_def handleInteraction_def interaction_timeout_def warn_def

lemma no_window_collectors:
  assumes "\<not> window_defined h"
  shows "promise (trackFirstContentfulPaint h) = Fulfilled Null"
    and "promise (trackTimeToInteractive h) = Fulfilled Null"
    and "promise (trackLargestContentfulPaint h) = Fulfilled Null"
    and "promise (trackCumulativeLayoutShift h) = Fulfilled Null"
    and "promise (trackFirstInputDelay h) = Fulfilled Null"
    and "promise (trackTimeToFirstByte h) = Fulfilled Null"
    and "promise (trackInteractionToNextPaint h) = Rejected (ReferenceError ''window is not defined'')"
  using assms by (simp_all add: collector_defs)

text \<open>
  C2 says that every collector resolves to \<^verbatim>\<open>null\<close> where the host has no
  \<^verbatim>\<open>window\<close>. Six do. \<^verbatim>\<open>trackInteractionToNextPaint\<close> has no such test: its executor
  throws a \<^verbatim>\<open>ReferenceError\<close>, the promise is rejected and no timer is set, so it
  never resolves; \<^verbatim>\<open>getPerformanceMetrics\<close> is rejected with it.
\<close>

theorem trackInteractionToNextPaint_no_window:
  "promise (trackInteractionToNextPaint server_host) =
     Rejected (ReferenceError ''window is not defined'') \<and>
   timer (trackInteractionToNextPaint server_host) = False \<and>
   promise (trackFirstContentfulPaint server_host) = Fulfilled Null \<and>
   promise (trackFirstInputDelay server_host) = Fulfilled Null \<and>
   Promise_all (promises (getPerformanceMetrics_call server_host Caller)) =
     Rejected (ReferenceError ''window is not defined'')"
  by (simp add: server_host_def collector_defs promises_def getPerformanceMetrics_call_def)

section \<open>The five-second fallback\<close>

lemmas run_eval =
  run_def initial_session_def initial_globals_def initial_metrics_def
  browser_host_def paint_entry_def largest_entry_def shift_entry_def input_entry_def
  getPerformanceMetrics_call_def collector_defs handler_defs promises_def
  getPerformanceMetrics_resume_def toFixed_eval

lemma interaction_timeout_resolves:
  assumes "window_defined h"
  shows "interaction_timeout g (trackInteractionToNextPaint h) =
           (g\<lparr>console := console g @ [Warn_no_interaction]\<rparr>,
            (trackInteractionToNextPaint h)\<lparr>promise := Fulfilled Null, timer := False\<rparr>)"
  using assms by (simp add: collector_defs handler_defs)

lemma firstInput_timeout_resolves:
  assumes "window_defined h" and "PerformanceObserver_in_window h"
    and "firstInputDelay (performanceMetrics g) = Null"
  shows "firstInput_timeout g (trackFirstInputDelay h) =
           (g\<lparr>console := console g @ [Warn_no_first_input]\<rparr>,
            (trackFirstInputDelay h)\<lparr>promise := Fulfilled Null, timer := False\<rparr>)"
  using assms by (simp add: collector_defs handler_defs)

lemma firstInput_timeout_stale:
  assumes "window_defined h" and "PerformanceObserver_in_window h"
    and "firstInputDelay (performanceMetrics g) \<noteq> Null"
  shows "firstInput_timeout g (trackFirstInputDelay h) =
           (g, (trackFirstInputDelay h)\<lparr>promise := Pending, timer := False\<rparr>)"
  using assms by (simp add: collector_defs handler_defs)

lemma run_append: "run (xs @ ys) s = run ys (run xs s)"
  by (simp add: run_def)

lemma first_cycle_session:
  "run first_cycle initial_session =
     \<lparr>state =
        \<lparr>performanceMetrics =
           \<lparr>firstContentfulPaint = Str ''1234.50'', timeToInteractive = Str ''1500.00'',
            largestContentfulPaint = Str ''1800.00'', cumulativeLayoutShift = Str ''0.0500'',
            firstInputDelay = Str ''12.00'', interactionToNextPaint = Str ''20.00'',
            timeToFirstByte = Str ''250.00'', componentRenderTimes = []\<rparr>,
         console = []\<rparr>,
      cycles =
        [\<lparr>c_fcp = \<lparr>promise = Fulfilled (Str ''1234.50''), observing = False, timer = False\<rparr>,
          c_tti = \<lparr>promise = Fulfilled (Str ''1500.00''), observing = True, timer = False\<rparr>,
          c_lcp = \<lparr>promise = Fulfilled (Str ''1800.00''), observing = False, timer = False\<rparr>,
          c_cls = \<lparr>promise = Fulfilled (Str ''0.0500''), observing = False, timer = False,
                   clsValue = 0.05\<rparr>,
          c_fid = \<lparr>promise = Fulfilled (Str ''12.00''), observing = False, timer = True\<rparr>,
          c_inp = \<lparr>promise = Fulfilled (Str ''20.00''), observing = False, timer = True,
                   interactionOccurred = True\<rparr>,
          c_ttfb = \<lparr>promise = Fulfilled (Str ''250.00''), observing = False, timer = False\<rparr>,
          awaited_by = Caller, resumed = True\<rparr>]\<rparr>"
  by (simp add: run_eval first_cycle_def)

lemma second_call_session:
  "run second_call (run first_cycle initial_session) =
     (run first_cycle initial_session)
       \<lparr>state := (state (run first_cycle initial_session))\<lparr>console := [Warn_no_interaction]\<rparr>,
        cycles := cycles (run first_cycle initial_session) @
          [\<lparr>c_fcp = \<lparr>promise = Pending, observing = True, timer = False\<rparr>,
            c_tti = \<lparr>promise = Fulfilled (Str ''1500.00''), observing = True, timer = False\<rparr>,
            c_lcp = \<lparr>promise = Pending, observing = True, timer = False\<rparr>,
            c_cls = \<lparr>promise = Pending, observing = True, timer = False, clsValue = 0\<rparr>,
            c_fid = \<lparr>promise = Pending, observing = True, timer = False\<rparr>,
            c_inp = \<lparr>promise = Fulfilled Null, observing = True, timer = False,
                     interactionOccurred = False\<rparr>,
            c_ttfb = \<lparr>promise = Fulfilled (Str ''250.00''), observing = False, timer = False\<rparr>,
            awaited_by = Caller, resumed = False\<rparr>]\<rparr>"
  unfolding first_cycle_session
  by (simp add: run_def second_call_def browser_host_def getPerformanceMetrics_call_def
      collector_defs handler_defs toFixed_eval)

lemma quiet_call_session:
  "run quiet_call initial_session =
     \<lparr>state = initial_globals\<lparr>console := [Warn_no_first_input, Warn_no_interaction]\<rparr>,
      cycles =
        [\<lparr>c_fcp = \<lparr>promise = Pending, observing = True, timer = False\<rparr>,
          c_tti = \<lparr>promise = Fulfilled (Str ''1500.00''), observing = True, timer = False\<rparr>,
          c_lcp = \<lparr>promise = Pending, observing = True, timer = False\<rparr>,
          c_cls = \<lparr>promise = Pending, observing = True, timer = False, clsValue = 0\<rparr>,
          c_fid = \<lparr>promise = Fulfilled Null, observing = True, timer = False\<rparr>,
          c_inp = \<lparr>promise = Fulfilled Null, observing = True, timer = False,
                   interactionOccurred = False\<rparr>,
          c_ttfb = \<lparr>promise = Fulfilled (Str ''250.00''), observing = False, timer = False\<rparr>,
          awaited_by = Caller, resumed = False\<rparr>]\<rparr>"
  by (simp add: run_eval quiet_call_def)

text \<open>
  C7 says that the fallback resolves the promise to \<^verbatim>\<open>null\<close> with a warning on every
  call, also after an earlier aggregation stored a value. For
  \<^verbatim>\<open>trackInteractionToNextPaint\<close> it does (its timer tests a flag of the call), and for
  \<^verbatim>\<open>trackFirstInputDelay\<close> on a fresh page. The timer of \<^verbatim>\<open>trackFirstInputDelay\<close>
  tests the stored \<^verbatim>\<open>firstInputDelay\<close> instead: once the first aggregation stored
  \<^verbatim>\<open>12.00\<close>, the timer of a second call does nothing, the promise stays pending, no
  warning is written, and the aggregation that awaits it stays pending.
\<close>

theorem trackFirstInputDelay_stale_snapshot:
  "firstInputDelay (performanceMetrics (state (run first_cycle initial_session))) = Str ''12.00'' \<and>
   promise (c_fid (cycles (run (first_cycle @ second_call) initial_session) ! 1)) = Pending \<and>
   timer (c_fid (cycles (run (first_cycle @ second_call) initial_session) ! 1)) = False \<and>
   promise (c_inp (cycles (run (first_cycle @ second_call) initial_session) ! 1)) = Fulfilled Null \<and>
   console (state (run (first_cycle @ second_call) initial_session)) = [Warn_no_interaction] \<and>
   Promise_all (promises (cycles (run (first_cycle @ second_call) initial_session) ! 1)) = Pending \<and>
   promise (c_fid (cycles (run quiet_call initial_session) ! 0)) = Fulfilled Null \<and>
   console (state (run quiet_call initial_session)) = [Warn_no_first_input, Warn_no_interaction]"
  unfolding run_append second_call_session quiet_call_session
  unfolding first_cycle_session
  by (simp add: promises_def)

section \<open>Render records across aggregations\<close>

lemma checkPerformanceAlerts_metrics:
  "performanceMetrics (checkPerformanceAlerts a g) = performanceMetrics g"
  by (simp add: checkPerformanceAlerts_eq)

lemma provideFeedback_metrics: "performanceMetrics (provideFeedback n g) = performanceMetrics g"
  by (simp add: provideFeedback_def)

lemma gamify_metrics: "performanceMetrics (gamify g) = performanceMetrics g"
  by (simp add: gamify_def provideFeedback_metrics)

lemma alerts_and_gamification_metrics:
  "performanceMetrics (alerts_and_gamification opts g) = performanceMetrics g"
  by (simp add: alerts_and_gamification_def Let_def gamify_metrics checkPerformanceAlerts_metrics)

lemma continue_metrics: "performanceMetrics (continue k g) = performanceMetrics g"
  by (cases k) (simp_all add: gamify_metrics alerts_and_gamification_metrics)

lemma deliver_metrics: "performanceMetrics (fst (deliver ev g c)) = performanceMetrics g"
  by (cases ev) (simp_all add: firstInput_timeout_def interaction_timeout_def warn_def)

lemma resume_renders:
  "componentRenderTimes (performanceMetrics (getPerformanceMetrics_resume vs g)) =
     componentRenderTimes (performanceMetrics g)"
  by (simp add: getPerformanceMetrics_resume_def split: list.splits)

lemma resume_console: "console (getPerformanceMetrics_resume vs g) = console g"
  by (simp add: getPerformanceMetrics_resume_def split: list.splits)

lemma step_renders:
  "componentRenderTimes (performanceMetrics (state (step a s))) =
     componentRenderTimes (performanceMetrics (state s)) @ pushed [a]"
proof (cases a)
  case (TrackComponentRender n t)
  then show ?thesis by (simp add: trackComponentRender_def Let_def)
next
  case (Deliver i ev)
  then show ?thesis
    using deliver_metrics [of ev "state s" "cycles s ! i"]
    by (cases "deliver ev (state s) (cycles s ! i)") simp
next
  case (Resume i)
  then show ?thesis
    by (simp add: Let_def continue_metrics resume_renders split: promise.splits)
qed (simp_all add: alerts_and_gamification_metrics checkPerformanceAlerts_metrics)

lemma pushed_Cons: "pushed (a # acts) = pushed [a] @ pushed acts"
  by (cases a) simp_all

lemma run_renders:
  "componentRenderTimes (performanceMetrics (state (run acts s))) =
     componentRenderTimes (performanceMetrics (state s)) @ pushed acts"
proof (induction acts arbitrary: s)
  case Nil
  then show ?case by (simp add: run_def)
next
  case (Cons a acts)
  have "run (a # acts) s = run acts (step a s)"
    by (simp add: run_def)
  then show ?case
    using Cons [of "step a s"] step_renders [of a s] pushed_Cons [of a acts] by simp
qed

text \<open>
  C8: whatever a session does, the stored list of render records is the list before
  followed by the records that \<^verbatim>\<open>trackComponentRender\<close> pushed meanwhile, in order; so
  any number of aggregations, started, fed and resumed in any order, leave it as it was.
  The resumption of \<^verbatim>\<open>getPerformanceMetrics\<close> changes neither the list nor the console:
  it replaces the seven scalar fields only.
\<close>

theorem getPerformanceMetrics_keeps_render_records:
  "componentRenderTimes (performanceMetrics (state (run acts s))) =
     componentRenderTimes (performanceMetrics (state s)) @ pushed acts \<and>
   componentRenderTimes (performanceMetrics (getPerformanceMetrics_resume vs g)) =
     componentRenderTimes (performanceMetrics g) \<and>
   console (getPerformanceMetrics_resume vs g) = console g"
  by (simp add: run_renders resume_renders resume_console)

theorem getPerformanceMetrics_keeps_render_records_witness:
  "componentRenderTimes (performanceMetrics (state
      (run (TrackComponentRender ''Widget'' 734.567 # first_cycle @ second_call) initial_session))) =
     [\<lparr>name = ''Widget'', renderTime = 734.567\<rparr>]"
  using getPerformanceMetrics_keeps_render_records
    [of "TrackComponentRender ''Widget'' 734.567 # first_cycle @ second_call" initial_session]
  by (simp add: first_cycle_def second_call_def initial_session_def initial_globals_def
      initial_metrics_def)

section \<open>Reading back what toFixed wrote\<close>

lemma digit_val_digit_char: "d < 10 \<Longrightarrow> digit_val (digit_char d) = Some d"
proof -
  assume "d < 10"
  then have "d = 0 \<or> d = 1 \<or> d = 2 \<or> d = 3 \<or> d = 4 \<or> d = 5 \<or> d = 6 \<or> d = 7 \<or> d = 8 \<or> d = 9"
    by arith
  then show ?thesis
    by (elim disjE) (simp_all add: digit_char_def digit_val_def)
qed

lemma is_digit_digit_char: "d < 10 \<Longrightarrow> is_digit (digit_char d)"
  by (simp add: is_digit_def digit_val_digit_char)

lemma digit_of_digit_char: "d < 10 \<Longrightarrow> digit_of (digit_char d) = d"
  by (simp add: digit_of_def digit_val_digit_char)

lemma is_digit_not_point: "is_digit c \<Longrightarrow> c \<noteq> CHR ''.''"
  by (auto simp: is_digit_def digit_val_def)

lemma is_digit_not_sign: "is_digit c \<Longrightarrow> c \<noteq> CHR ''-'' \<and> c \<noteq> CHR ''+''"
  by (auto simp: is_digit_def digit_val_def)

lemma is_digit_zero: "is_digit (CHR ''0'')"
  by (simp add: is_digit_def digit_val_def)

lemma digit_of_zero: "digit_of (CHR ''0'') = 0"
  by (simp add: digit_of_def digit_val_def)

lemma digits_val_value: "list_all is_digit s \<Longrightarrow> digits_val s acc = Some (value_from acc s)"
  by (induction s arbitrary: acc) (auto simp: value_from_def is_digit_def digit_of_def)

lemma value_from_acc: "value_from acc s = acc * 10 ^ length s + value_from 0 s"
proof (induction s arbitrary: acc)
  case Nil
  then show ?case by (simp add: value_from_def)
next
  case (Cons c s)
  have "value_from acc (c # s) = value_from (10 * acc + digit_of c) s"
    by (simp add: value_from_def)
  also have "\<dots> = (10 * acc + digit_of c) * 10 ^ length s + value_from 0 s"
    by (rule Cons)
  also have "value_from 0 (c # s) = digit_of c * 10 ^ length s + value_from 0 s"
    using Cons [of "digit_of c"] by (simp add: value_from_def)
  ultimately show ?case by (simp add: algebra_simps)
qed

lemma value_from_append:
  "value_from 0 (a @ b) = value_from 0 a * 10 ^ length b + value_from 0 b"
proof -
  have "value_from 0 (a @ b) = value_from (value_from 0 a) b"
    by (simp add: value_from_def)
  then show ?thesis using value_from_acc [of "value_from 0 a" b] by simp
qed

lemma value_from_snoc: "value_from 0 (a @ [c]) = 10 * value_from 0 a + digit_of c"
  by (simp add: value_from_def)

lemma digits_all_digit: "list_all is_digit (digits n)"
proof (induction n rule: digits.induct)
  case (1 n)
  show ?case
  proof (cases "n < 10")
    case True
    then show ?thesis by (subst digits.simps) (simp add: is_digit_digit_char)
  next
    case False
    then show ?thesis
      using 1 by (subst digits.simps) (simp add: is_digit_digit_char)
  qed
qed

lemma digits_value: "value_from 0 (digits n) = n"
proof (induction n rule: digits.induct)
  case (1 n)
  show ?case
  proof (cases "n < 10")
    case True
    then show ?thesis
      by (subst digits.simps) (simp add: value_from_def digit_of_digit_char)
  next
    case False
    then have "value_from 0 (digits (n div 10)) = n div 10"
      using 1 by simp
    with False show ?thesis
      by (subst digits.simps) (simp add: value_from_snoc digit_of_digit_char)
  qed
qed

lemma digits_nonempty: "digits n \<noteq> []"
  by (subst digits.simps) simp

lemma value_from_zeros: "value_from 0 (replicate z (CHR ''0'') @ s) = value_from 0 s"
proof -
  have "value_from 0 (replicate z (CHR ''0'')) = 0"
    by (induction z) (simp_all add: value_from_def digit_of_zero)
  then show ?thesis by (simp add: value_from_append)
qed

lemma unsigned_point:
  assumes "list_all is_digit a" and "list_all is_digit b" and "a \<noteq> []"
  shows "StrUnsignedDecimalLiteral (a @ ''.'' @ b) =
           Some (real (value_from 0 a) + real (value_from 0 b) / 10 ^ length b)"
proof -
  have no_point: "\<forall>c \<in> set a. c \<noteq> CHR ''.''"
    using assms(1) by (auto simp: list_all_iff is_digit_not_point)
  have tw: "takeWhile (\<lambda>c. c \<noteq> CHR ''.'') (a @ ''.'' @ b) = a"
    using no_point by (simp add: takeWhile_append2 [of a "\<lambda>c. c \<noteq> CHR ''.''"])
  have dw: "dropWhile (\<lambda>c. c \<noteq> CHR ''.'') (a @ ''.'' @ b) = ''.'' @ b"
    using no_point by (simp add: dropWhile_append2 [of a "\<lambda>c. c \<noteq> CHR ''.''"])
  show ?thesis
    unfolding StrUnsignedDecimalLiteral_def tw dw
    using assms by (simp add: digits_val_value)
qed

lemma unsigned_plain:
  assumes "list_all is_digit a" and "a \<noteq> []"
  shows "StrUnsignedDecimalLiteral a = Some (real (value_from 0 a))"
proof -
  have no_point: "\<forall>c \<in> set a. c \<noteq> CHR ''.''"
    using assms(1) by (auto simp: list_all_iff is_digit_not_point)
  have tw: "takeWhile (\<lambda>c. c \<noteq> CHR ''.'') a = a"
    using no_point by (simp add: takeWhile_eq_all_conv)
  have dw: "dropWhile (\<lambda>c. c \<noteq> CHR ''.'') a = []"
    using no_point by simp
  show ?thesis
    unfolding StrUnsignedDecimalLiteral_def tw dw
    using assms by (simp add: digits_val_value)
qed

lemma StringToNumber_unsigned:
  assumes "list_all is_digit a" and "a \<noteq> []"
  shows "StringToNumber (a @ r) = StrUnsignedDecimalLiteral (a @ r)"
proof -
  obtain c cs where a: "a = c # cs"
    using assms(2) by (cases a) auto
  then have "is_digit c"
    using assms(1) by simp
  then show ?thesis
    using is_digit_not_sign [of c] by (simp add: a StringToNumber_def)
qed

lemma toFixed_abs_number:
  "StringToNumber (toFixed_abs f x) = Some (real (nat \<lfloor>x * 10 ^ f + 1 / 2\<rfloor>) / 10 ^ f)"
proof (cases "f = 0")
  case True
  then show ?thesis
    using StringToNumber_unsigned [of "digits (nat \<lfloor>x + 1 / 2\<rfloor>)" "[]"]
      unsigned_plain [of "digits (nat \<lfloor>x + 1 / 2\<rfloor>)"]
    by (simp add: toFixed_abs_def digits_all_digit digits_nonempty digits_value)
next
  case False
  define n where "n = nat \<lfloor>x * 10 ^ f + 1 / 2\<rfloor>"
  define m where "m = (if length (digits n) \<le> f
      then replicate (f + 1 - length (digits n)) (CHR ''0'') @ digits n else digits n)"
  define a where "a = take (length m - f) m"
  define b where "b = drop (length m - f) m"
  have len: "f < length m"
    by (simp add: m_def)
  have digit_m: "list_all is_digit m"
    using digits_all_digit [of n] by (simp add: m_def is_digit_zero list_all_iff)
  have val_m: "value_from 0 m = n"
    unfolding m_def by (simp add: value_from_zeros digits_value)
  have ab: "a @ b = m"
    by (simp add: a_def b_def)
  have len_b: "length b = f"
    using len by (simp add: b_def)
  have a_ne: "a \<noteq> []"
    using len by (auto simp: a_def)
  have digit_a: "list_all is_digit a" and digit_b: "list_all is_digit b"
    using digit_m ab by (metis list_all_append)+
  have split: "value_from 0 a * 10 ^ f + value_from 0 b = n"
    using value_from_append [of a b] ab val_m len_b by simp
  have "toFixed_abs f x = a @ ''.'' @ b"
    using False by (simp add: toFixed_abs_def Let_def n_def [symmetric] m_def [symmetric] a_def b_def)
  then have "StringToNumber (toFixed_abs f x) =
      Some (real (value_from 0 a) + real (value_from 0 b) / 10 ^ f)"
    using StringToNumber_unsigned [OF digit_a a_ne, of "''.'' @ b"]
      unsigned_point [OF digit_a digit_b a_ne] len_b by simp
  also have "real (value_from 0 a) + real (value_from 0 b) / 10 ^ f = real n / 10 ^ f"
    using split [symmetric] by (simp add: field_simps)
  finally show ?thesis by (simp add: n_def)
qed

text \<open>The string of a non-negative number reads back as the number rounded to \<open>f\<close> decimals.\<close>

lemma toFixed_number:
  "0 \<le> x \<Longrightarrow>
     toNumber (Str (toFixed f x)) = Some (real (nat \<lfloor>x * 10 ^ f + 1 / 2\<rfloor>) / 10 ^ f)"
  by (simp add: toNumber_def toFixed_def toFixed_abs_number)

section \<open>What the scalar fields hold\<close>

lemma formattedI: "0 \<le> x \<Longrightarrow> formatted f (Str (toFixed f x))"
  by (auto simp: formatted_def)

lemma settled_ok_resolve:
  "settled_ok f p \<Longrightarrow> v = Null \<or> formatted f v \<Longrightarrow> settled_ok f (resolve v p)"
  by (cases p) (simp_all add: settled_ok_def resolve_def)

lemma call_ok:
  assumes "plausible_host h"
  shows "cycle_ok (getPerformanceMetrics_call h k)"
  using assms
  by (simp add: cycle_ok_def getPerformanceMetrics_call_def collector_defs plausible_host_def
      settled_ok_def formattedI)

lemma shift_fold_nonneg:
  "0 \<le> acc \<Longrightarrow> list_all (\<lambda>e. 0 \<le> shift_value e) es \<Longrightarrow>
     0 \<le> fold (\<lambda>e acc. if \<not> hadRecentInput e \<and> shift_value e \<noteq> 0
                          then acc + shift_value e else acc) es acc"
  by (induction es arbitrary: acc) simp_all

lemma filter_all:
  assumes "list_all P es" and "filter Q es = e # r"
  shows "P e"
proof -
  have "e \<in> set (filter Q es)"
    by (simp add: assms(2))
  then have "e \<in> set es"
    by simp
  then show ?thesis
    using assms(1) by (simp add: list_all_iff)
qed

lemma deliver_ok:
  assumes "plausible_event ev" and "cycle_ok c"
  shows "cycle_ok (snd (deliver ev g c))"
proof (cases ev)
  case (Paint es)
  then show ?thesis
    using assms filter_all [of "\<lambda>e. 0 \<le> startTime e" es "\<lambda>e. entry_name e = ''first-contentful-paint''"]
    by (auto simp: cycle_ok_def firstContentfulPaint_observer_def settled_ok_resolve formattedI
        split: list.splits)
next
  case (Load t)
  then show ?thesis
    using assms
    by (simp add: cycle_ok_def timeToInteractive_load_def settled_ok_resolve formattedI)
next
  case (Largest_paint es)
  then show ?thesis
    using assms
    by (auto simp: cycle_ok_def largestContentfulPaint_observer_def settled_ok_resolve formattedI
        list_all_iff split: list.splits)
next
  case (Layout_shift es)
  then show ?thesis
    using assms shift_fold_nonneg [of "clsValue (c_cls c)" es]
    by (simp add: cycle_ok_def layoutShift_observer_def Let_def settled_ok_resolve formattedI)
next
  case (First_input es)
  then show ?thesis
    using assms
    by (auto simp: cycle_ok_def firstInput_observer_def settled_ok_resolve formattedI
        split: list.splits)
next
  case First_input_timeout
  then show ?thesis
    using assms
    by (simp add: cycle_ok_def firstInput_timeout_def settled_ok_resolve)
next
  case (Click t timeStamp)
  then show ?thesis
    using assms
    by (simp add: cycle_ok_def handleInteraction_def settled_ok_resolve formattedI)
next
  case Interaction_timeout
  then show ?thesis
    using assms
    by (simp add: cycle_ok_def interaction_timeout_def settled_ok_resolve)
qed

lemma Promise_all_Fulfilled: "Promise_all ps = Fulfilled vs \<Longrightarrow> ps = map Fulfilled vs"
  by (induction ps arbitrary: vs) (auto split: promise.splits)

lemma resume_ok:
  assumes "cycle_ok c" and "Promise_all (promises c) = Fulfilled vs"
  shows "stored_ok k (get_scalar k (performanceMetrics (getPerformanceMetrics_resume vs g)))"
proof -
  from Promise_all_Fulfilled [OF assms(2)]
  obtain v1 v2 v3 v4 v5 v6 v7 where vs: "vs = [v1, v2, v3, v4, v5, v6, v7]"
    and p: "promise (c_fcp c) = Fulfilled v1" "promise (c_tti c) = Fulfilled v2"
      "promise (c_lcp c) = Fulfilled v3" "promise (c_cls c) = Fulfilled v4"
      "promise (c_fid c) = Fulfilled v5" "promise (c_inp c) = Fulfilled v6"
      "promise (c_ttfb c) = Fulfilled v7"
    by (auto simp: promises_def Cons_eq_map_conv)
  have ok: "v1 = Null \<or> formatted 2 v1" "v2 = Null \<or> formatted 2 v2"
    "v3 = Null \<or> formatted 2 v3" "v4 = Null \<or> formatted 4 v4" "v5 = Null \<or> formatted 2 v5"
    "v6 = Null \<or> formatted 2 v6" "v7 = Null \<or> formatted 2 v7"
    using assms(1) p by (simp_all add: cycle_ok_def settled_ok_def)
  show ?thesis
  proof (cases k)
    case FirstContentfulPaint
    then show ?thesis
      using ok(1) by (auto simp: vs getPerformanceMetrics_resume_def stored_ok_def)
  next
    case TimeToInteractive
    then show ?thesis
      using ok(2) by (auto simp: vs getPerformanceMetrics_resume_def stored_ok_def)
  next
    case LargestContentfulPaint
    then show ?thesis
      using ok(3) by (auto simp: vs getPerformanceMetrics_resume_def stored_ok_def)
  next
    case CumulativeLayoutShift
    then show ?thesis
      using ok(4) by (auto simp: vs getPerformanceMetrics_resume_def stored_ok_def)
  next
    case FirstInputDelay
    then show ?thesis
      using ok(5) by (auto simp: vs getPerformanceMetrics_resume_def stored_ok_def)
  next
    case InteractionToNextPaint
    then show ?thesis
      using ok(6) by (auto simp: vs getPerformanceMetrics_resume_def stored_ok_def)
  next
    case TimeToFirstByte
    then show ?thesis
      using ok(7) by (auto simp: vs getPerformanceMetrics_resume_def stored_ok_def)
  qed
qed

lemma get_scalar_renders [simp]:
  "get_scalar k (pm\<lparr>componentRenderTimes := rs\<rparr>) = get_scalar k pm"
  by (cases k) simp_all

lemma list_all_update: "list_all P xs \<Longrightarrow> P x \<Longrightarrow> list_all P (xs[i := x])"
  using set_update_subset_insert [of xs i x] by (auto simp: list_all_iff)

lemma list_all_nth: "list_all P xs \<Longrightarrow> i < length xs \<Longrightarrow> P (xs ! i)"
  by (simp add: list_all_iff)

lemma cycle_ok_resumed: "cycle_ok (c\<lparr>resumed := b\<rparr>) = cycle_ok c"
  by (simp add: cycle_ok_def)

lemma step_ok:
  assumes "plausible a" and "session_ok s"
  shows "session_ok (step a s)"
proof (cases a)
  case (TrackComponentRender n t)
  then show ?thesis
    using assms by (simp add: session_ok_def trackComponentRender_def Let_def)
next
  case (GetPerformanceMetrics h)
  then show ?thesis
    using assms by (simp add: session_ok_def call_ok)
next
  case (RunGamification h)
  then show ?thesis
    using assms by (simp add: session_ok_def call_ok)
next
  case (RunPerformanceTracker opts h)
  then show ?thesis
    using assms by (simp add: session_ok_def call_ok alerts_and_gamification_metrics)
next
  case (CheckPerformanceAlerts x)
  then show ?thesis
    using assms by (simp add: session_ok_def checkPerformanceAlerts_metrics)
next
  case (Deliver i ev)
  show ?thesis
  proof (cases "i < length (cycles s)")
    case True
    obtain g c where d: "deliver ev (state s) (cycles s ! i) = (g, c)"
      by (cases "deliver ev (state s) (cycles s ! i)") auto
    have "cycle_ok (cycles s ! i)"
      using assms(2) True by (simp add: session_ok_def list_all_nth)
    then have "cycle_ok c"
      using deliver_ok [of ev "cycles s ! i" "state s"] assms(1) Deliver d by simp
    moreover have "performanceMetrics g = performanceMetrics (state s)"
      using deliver_metrics [of ev "state s" "cycles s ! i"] d by simp
    ultimately show ?thesis
      using assms(2) True Deliver d by (simp add: session_ok_def list_all_update)
  next
    case False
    then show ?thesis using assms(2) Deliver by simp
  qed
next
  case (Resume i)
  show ?thesis
  proof (cases "i < length (cycles s) \<and> \<not> resumed (cycles s ! i)")
    case True
    then have ok: "cycle_ok (cycles s ! i)"
      using assms(2) by (simp add: session_ok_def list_all_nth)
    show ?thesis
    proof (cases "Promise_all (promises (cycles s ! i))")
      case Pending
      then show ?thesis using assms(2) True Resume by simp
    next
      case (Rejected e)
      then show ?thesis
        using assms(2) True Resume ok
        by (simp add: session_ok_def list_all_update cycle_ok_resumed)
    next
      case (Fulfilled vs)
      then show ?thesis
        using assms(2) True Resume ok resume_ok [OF ok Fulfilled, of _ "state s"]
        by (simp add: session_ok_def Let_def list_all_update cycle_ok_resumed continue_metrics)
    qed
  next
    case False
    then show ?thesis using assms(2) Resume by auto
  qed
qed

lemma run_ok: "list_all plausible acts \<Longrightarrow> session_ok s \<Longrightarrow> session_ok (run acts s)"
proof (induction acts arbitrary: s)
  case Nil
  then show ?case by (simp add: run_def)
next
  case (Cons a acts)
  have "run (a # acts) s = run acts (step a s)"
    by (simp add: run_def)
  then show ?case
    using Cons step_ok [of a s] by simp
qed

lemma initial_session_ok: "session_ok initial_session"
proof -
  have "stored_ok k (get_scalar k initial_metrics)" for k
    by (cases k) (simp_all add: initial_metrics_def stored_ok_def)
  then show ?thesis
    by (simp add: session_ok_def initial_session_def initial_globals_def)
qed

lemma formatted_number:
  assumes "formatted f v"
  shows "\<exists>y\<ge>0. toNumber v = Some y"
proof -
  obtain x where x: "0 \<le> x" "v = Str (toFixed f x)"
    using assms by (auto simp: formatted_def)
  have "toNumber v = Some (real (nat \<lfloor>x * 10 ^ f + 1 / 2\<rfloor>) / 10 ^ f)"
    using x by (simp add: toFixed_number)
  moreover have "0 \<le> real (nat \<lfloor>x * 10 ^ f + 1 / 2\<rfloor>) / 10 ^ f"
    by simp
  ultimately show ?thesis by blast
qed

lemma stored_ok_number:
  assumes "stored_ok k v"
  shows "\<exists>y\<ge>0. toNumber v = Some y"
proof -
  consider "v = Null" | "v = Num 0" | "formatted (precision k) v"
    using assms by (auto simp: stored_ok_def)
  then show ?thesis
  proof cases
    case 1
    then show ?thesis by (simp add: toNumber_def)
  next
    case 2
    then show ?thesis by (simp add: toNumber_def)
  next
    case 3
    then show ?thesis by (rule formatted_number)
  qed
qed

lemma first_cycle_plausible: "list_all plausible first_cycle"
  by (simp add: first_cycle_def browser_host_def plausible_host_def paint_entry_def
      largest_entry_def shift_entry_def input_entry_def)

text \<open>
  C6 as it is stated, that every scalar field is \<^verbatim>\<open>null\<close> or a non-negative number,
  fails: after one aggregation in a browser the first contentful paint that is stored is
  the string \<^verbatim>\<open>1234.50\<close>, what \<^verbatim>\<open>toFixed(2)\<close> returned for the entry's start time
  1234.5, and not a number.
\<close>

theorem stored_scalar_is_string:
  "list_all plausible first_cycle \<and>
   get_scalar FirstContentfulPaint (performanceMetrics (state (run first_cycle initial_session)))
     = Str ''1234.50'' \<and>
   \<not> number_or_unknown
       (get_scalar FirstContentfulPaint (performanceMetrics (state (run first_cycle initial_session))))"
  using first_cycle_plausible by (simp add: first_cycle_session number_or_unknown_def)

text \<open>
  C6, amended: at every point of a session whose host gives plausible readings, each
  scalar field is \<^verbatim>\<open>null\<close>, or the initial number 0 of the layout shift, or the string
  that \<^verbatim>\<open>toFixed\<close> returned for a non-negative reading where it was observed (two
  decimals, four for the layout shift); that string is all that is stored, and the
  field reads as a finite non-negative number.
\<close>

theorem stored_scalars_formatted:
  assumes "list_all plausible acts"
  shows "stored_ok k (get_scalar k (performanceMetrics (state (run acts initial_session)))) \<and>
         (\<exists>y\<ge>0. toNumber (get_scalar k (performanceMetrics (state (run acts initial_session))))
            = Some y)"
proof -
  have "session_ok (run acts initial_session)"
    using assms initial_session_ok by (rule run_ok)
  then have "stored_ok k (get_scalar k (performanceMetrics (state (run acts initial_session))))"
    by (simp add: session_ok_def)
  then show ?thesis
    using stored_ok_number by blast
qed

theorem stored_scalars_formatted_witness:
  "list_all plausible first_cycle \<and>
   get_scalar FirstContentfulPaint (performanceMetrics (state (run first_cycle initial_session)))
     = Str ''1234.50'' \<and>
   stored_ok FirstContentfulPaint (Str ''1234.50'') \<and>
   (\<exists>y\<ge>0. toNumber (Str ''1234.50'') = Some y)"
  using stored_scalars_formatted [OF first_cycle_plausible, of FirstContentfulPaint]
    first_cycle_plausible
  by (simp add: first_cycle_session)

end
